theory Spec2Isabelle
  imports Complex_Main
begin

section \<open>Data model and operations\<close>

subsection \<open>Frame-rate options of the camera settings menu\<close>

text \<open>
  \<^verbatim>\<open>generateFrameRates\<close> of the camera settings component. The source keeps an array
  \<^verbatim>\<open>frameRates\<close>, initially \<^verbatim>\<open>[30]\<close>, and pushes
  \<^verbatim>\<open>Math.min(last + 30, maxFrameRate)\<close> while the last element is below
  \<^verbatim>\<open>maxFrameRate\<close>. The loop is the recursive function below; the array is the
  list argument. Reading the last element of an empty array gives \<^verbatim>\<open>undefined\<close> in
  the source, and \<^verbatim>\<open>undefined < maxFrameRate\<close> is false, so the loop stops: that is
  the \<open>frameRates \<noteq> []\<close> conjunct of the loop condition.

  Numbers are modelled as exact reals. The elements pushed are multiples of 30 or
  \<^verbatim>\<open>maxFrameRate\<close> itself, so for finite frame rates of ordinary magnitude the
  source's double arithmetic is exact and agrees with the model.
\<close>

function generateFrameRates_loop :: "real list \<Rightarrow> real \<Rightarrow> real list" where
  "generateFrameRates_loop frameRates maxFrameRate =
     (if frameRates \<noteq> [] \<and> last frameRates < maxFrameRate
      then generateFrameRates_loop
             (frameRates @ [min (last frameRates + 30) maxFrameRate]) maxFrameRate
      else frameRates)"
  by pat_completeness auto
termination
proof (relation "measure (\<lambda>(frs, m). nat \<lceil>(m - last frs) / 30\<rceil>)")
  show "wf (measure (\<lambda>(frs, m). nat \<lceil>(m - last frs) / 30\<rceil>))" by simp
next
  fix frameRates :: "real list" and maxFrameRate :: real
  assume a: "frameRates \<noteq> [] \<and> last frameRates < maxFrameRate"
  let ?l = "last frameRates"
  have pos: "0 < \<lceil>(maxFrameRate - ?l) / 30\<rceil>" using a by simp
  show "((frameRates @ [min (?l + 30) maxFrameRate], maxFrameRate), (frameRates, maxFrameRate))
        \<in> measure (\<lambda>(frs, m). nat \<lceil>(m - last frs) / 30\<rceil>)"
  proof (cases "?l + 30 \<le> maxFrameRate")
    case True
    have "\<lceil>(maxFrameRate - (?l + 30)) / 30\<rceil> = \<lceil>(maxFrameRate - ?l) / 30 - 1\<rceil>"
      by (simp add: field_simps)
    also have "\<dots> = \<lceil>(maxFrameRate - ?l) / 30\<rceil> - 1" by (simp only: ceiling_diff_one)
    finally have "\<lceil>(maxFrameRate - (?l + 30)) / 30\<rceil> = \<lceil>(maxFrameRate - ?l) / 30\<rceil> - 1" .
    with pos True show ?thesis by (simp add: min_def)
  next
    case False
    with pos show ?thesis by (simp add: min_def)
  qed
qed

declare generateFrameRates_loop.simps [simp del]

definition generateFrameRates :: "real \<Rightarrow> real list" where
  "generateFrameRates maxFrameRate = generateFrameRates_loop [30] maxFrameRate"

subsection \<open>The hand landmarker as its callers see it\<close>

text \<open>
  The \<^verbatim>\<open>HandLandmarker\<close> class is imported by the components but its file is not
  among the sources. The components read its flags \<^verbatim>\<open>initialized\<close>,
  \<^verbatim>\<open>processingFrame\<close>, \<^verbatim>\<open>processingVideo\<close> and \<^verbatim>\<open>settingNumHands\<close> and call
  \<^verbatim>\<open>processFrame\<close>, \<^verbatim>\<open>waitForInitialization\<close> and \<^verbatim>\<open>setNumHands\<close>. The record holds
  the four flags, and three bookkeeping fields that record the calls the object has
  received: the frames whose \<^verbatim>\<open>processFrame\<close> promise has not settled yet, the number of
  bulk-reprocessing calls that have not settled yet, and the arguments of the
  \<^verbatim>\<open>setNumHands\<close> calls.
\<close>

type_synonym frame = nat

record hand_landmarker =
  initialized :: bool
  processingFrame :: bool
  processingVideo :: bool
  settingNumHands :: bool
  inFlight :: "frame list"
  bulkInFlight :: nat
  numHandsRequests :: "nat list"

text \<open>
  Modelled from the spec: \<^verbatim>\<open>HandLandmarker.processFrame\<close> is missing from the sources.
  The spec says that \<^verbatim>\<open>processingFrame\<close> means "an inference call is currently
  outstanding" and that the driver, not the scheduler, checks the flags before calling.
  So a call always becomes an outstanding call and raises the flag.
\<close>

definition processFrame :: "frame \<Rightarrow> hand_landmarker \<Rightarrow> hand_landmarker" where
  "processFrame frame h = h\<lparr>processingFrame := True, inFlight := inFlight h @ [frame]\<rparr>"

text \<open>
  Modelled from the spec: the settling of a \<^verbatim>\<open>processFrame\<close> promise is missing from
  the sources. The spec says that a call, successful or failed, "must not leave
  \<^verbatim>\<open>processingFrame\<close> stuck true (guaranteed reset in all exit paths)".
\<close>

definition processFrame_settled :: "hand_landmarker \<Rightarrow> hand_landmarker" where
  "processFrame_settled h =
     (case inFlight h of
        [] \<Rightarrow> h
      | f # fs \<Rightarrow> h\<lparr>processingFrame := False, inFlight := fs\<rparr>)"

text \<open>
  Modelled from the spec: the bulk reprocessing of a finished recording is missing from
  the sources. The spec says that \<^verbatim>\<open>processingVideo\<close> "guards a bulk reprocessing mode
  that is mutually exclusive with live single-frame inference", that the scheduler
  "enforces at-most-one in-flight whole-clip batch inference call at a time", and that the
  flags are "read-checked-and-set as a single logical step". So a bulk request is accepted
  only on an initialized engine with neither flag raised, and raises \<^verbatim>\<open>processingVideo\<close>
  until it settles.
\<close>

definition processVideo :: "hand_landmarker \<Rightarrow> hand_landmarker" where
  "processVideo h =
     (if initialized h \<and> \<not> processingFrame h \<and> \<not> processingVideo h
      then h\<lparr>processingVideo := True, bulkInFlight := Suc (bulkInFlight h)\<rparr>
      else h)"

definition processVideo_settled :: "hand_landmarker \<Rightarrow> hand_landmarker" where
  "processVideo_settled h =
     (if bulkInFlight h = 0 then h
      else h\<lparr>processingVideo := False, bulkInFlight := bulkInFlight h - 1\<rparr>)"

text \<open>
  Modelled from the spec: \<^verbatim>\<open>HandLandmarker.setNumHands\<close> is missing from the sources.
  The spec says that it "reconfigures the maximum concurrently tracked hands" and that
  \<^verbatim>\<open>settingNumHands\<close> is true "while a configuration change is in flight".
\<close>

definition setNumHands :: "nat \<Rightarrow> hand_landmarker \<Rightarrow> hand_landmarker" where
  "setNumHands n h = h\<lparr>settingNumHands := True, numHandsRequests := numHandsRequests h @ [n]\<rparr>"

subsection \<open>Camera settings component\<close>

text \<open>
  The enum \<^verbatim>\<open>CameraCapabilities\<close> and the string value of each member, which is the
  key looked up in the object returned by \<^verbatim>\<open>getCapabilities()\<close>.
\<close>

datatype CameraCapabilities =
    ExposureMode | ExposureTime | ExposureCompensation
  | FocusMode | FocusDistance
  | WhiteBalanceMode | WhiteBalanceTemperature
  | Brightness | Contrast | Saturation | Sharpness

fun capabilityKey :: "CameraCapabilities \<Rightarrow> string" where
  "capabilityKey ExposureMode = ''exposureMode''"
| "capabilityKey ExposureTime = ''exposureTime''"
| "capabilityKey ExposureCompensation = ''exposureCompensation''"
| "capabilityKey FocusMode = ''focusMode''"
| "capabilityKey FocusDistance = ''focusDistance''"
| "capabilityKey WhiteBalanceMode = ''whiteBalanceMode''"
| "capabilityKey WhiteBalanceTemperature = ''colorTemperature''"
| "capabilityKey Brightness = ''brightness''"
| "capabilityKey Contrast = ''contrast''"
| "capabilityKey Saturation = ''saturation''"
| "capabilityKey Sharpness = ''sharpness''"

text \<open>
  The video track (a browser \<^verbatim>\<open>MediaStreamTrack\<close>): the keys of the capabilities object
  it reports, and the advanced constraints applied to it so far, in call order. Each
  numeric handler passes \<^verbatim>\<open>{advanced: [{[key]: value}]}\<close>, recorded as the pair of key
  and value.
\<close>

record media_track =
  capabilities :: "string list"
  appliedConstraints :: "(string \<times> real) list"

definition applyConstraints :: "string \<Rightarrow> real \<Rightarrow> media_track \<Rightarrow> media_track" where
  "applyConstraints k v t = t\<lparr>appliedConstraints := appliedConstraints t @ [(k, v)]\<rparr>"

text \<open>
  The props \<^verbatim>\<open>videoTrack\<close> and \<^verbatim>\<open>handLandmarker\<close> (\<open>None\<close> for null or undefined)
  and the React state of the component. The state variable \<^verbatim>\<open>settingNumHands\<close> of the
  component is the field \<open>uiSettingNumHands\<close>, to keep it apart from the flag of the same
  name on the hand landmarker.
\<close>

record camera_settings =
  videoTrack :: "media_track option"
  handLandmarker :: "hand_landmarker option"
  trackTwoHands :: bool
  uiSettingNumHands :: bool
  exposureTime :: real
  exposureCompensation :: real
  focusDistance :: real
  whiteBalance :: real
  brightness :: real
  contrast :: real
  saturation :: real
  sharpness :: real

text \<open>
  The tail shared by the numeric change handlers:
  \<^verbatim>\<open>const capabilities = videoTrack?.getCapabilities();
  if (capabilities && KEY in capabilities) videoTrack!.applyConstraints(...)\<close>.
\<close>

definition applyIfCapable ::
  "CameraCapabilities \<Rightarrow> real \<Rightarrow> media_track option \<Rightarrow> media_track option" where
  "applyIfCapable k v track =
     (case track of
        None \<Rightarrow> None
      | Some t \<Rightarrow>
          if capabilityKey k \<in> set (capabilities t)
          then Some (applyConstraints (capabilityKey k) v t)
          else Some t)"

definition handleExposureTimeChange :: "real \<Rightarrow> camera_settings \<Rightarrow> camera_settings" where
  "handleExposureTimeChange v s =
     s\<lparr>exposureTime := v, videoTrack := applyIfCapable ExposureTime v (videoTrack s)\<rparr>"

definition handleExposureCompensationChange :: "real \<Rightarrow> camera_settings \<Rightarrow> camera_settings" where
  "handleExposureCompensationChange v s =
     s\<lparr>exposureCompensation := v,
       videoTrack := applyIfCapable ExposureCompensation v (videoTrack s)\<rparr>"

definition handleFocusDistanceChange :: "real \<Rightarrow> camera_settings \<Rightarrow> camera_settings" where
  "handleFocusDistanceChange v s =
     s\<lparr>focusDistance := v, videoTrack := applyIfCapable FocusDistance v (videoTrack s)\<rparr>"

definition handleWhiteBalanceChange :: "real \<Rightarrow> camera_settings \<Rightarrow> camera_settings" where
  "handleWhiteBalanceChange v s =
     s\<lparr>whiteBalance := v,
       videoTrack := applyIfCapable WhiteBalanceTemperature v (videoTrack s)\<rparr>"

definition handleBrightnessChange :: "real \<Rightarrow> camera_settings \<Rightarrow> camera_settings" where
  "handleBrightnessChange v s =
     s\<lparr>brightness := v, videoTrack := applyIfCapable Brightness v (videoTrack s)\<rparr>"

definition handleContrastChange :: "real \<Rightarrow> camera_settings \<Rightarrow> camera_settings" where
  "handleContrastChange v s =
     s\<lparr>contrast := v, videoTrack := applyIfCapable Contrast v (videoTrack s)\<rparr>"

definition handleSaturationChange :: "real \<Rightarrow> camera_settings \<Rightarrow> camera_settings" where
  "handleSaturationChange v s =
     s\<lparr>saturation := v, videoTrack := applyIfCapable Saturation v (videoTrack s)\<rparr>"

definition handleSharpnessChange :: "real \<Rightarrow> camera_settings \<Rightarrow> camera_settings" where
  "handleSharpnessChange v s =
     s\<lparr>sharpness := v, videoTrack := applyIfCapable Sharpness v (videoTrack s)\<rparr>"

text \<open>
  The eight numeric handlers, each with the capability it tests and the state variable
  it sets.
\<close>

definition numericHandlers ::
  "((real \<Rightarrow> camera_settings \<Rightarrow> camera_settings) \<times> CameraCapabilities
     \<times> (camera_settings \<Rightarrow> real)) list" where
  "numericHandlers =
     [(handleExposureTimeChange, ExposureTime, exposureTime),
      (handleExposureCompensationChange, ExposureCompensation, exposureCompensation),
      (handleFocusDistanceChange, FocusDistance, focusDistance),
      (handleWhiteBalanceChange, WhiteBalanceTemperature, whiteBalance),
      (handleBrightnessChange, Brightness, brightness),
      (handleContrastChange, Contrast, contrast),
      (handleSaturationChange, Saturation, saturation),
      (handleSharpnessChange, Sharpness, sharpness)]"

text \<open>
  \<^verbatim>\<open>handleTrackTwoHandsChange\<close>: returns at once without a hand landmarker or while the
  landmarker's \<^verbatim>\<open>settingNumHands\<close> is true; otherwise sets the state variable.
\<close>

definition handleTrackTwoHandsChange :: "bool \<Rightarrow> camera_settings \<Rightarrow> camera_settings" where
  "handleTrackTwoHandsChange v s =
     (case handLandmarker s of
        None \<Rightarrow> s
      | Some h \<Rightarrow> if settingNumHands h then s else s\<lparr>trackTwoHands := v\<rparr>)"

text \<open>
  The effect on \<^verbatim>\<open>[handLandmarker, trackTwoHands]\<close>. Its synchronous part returns
  without a hand landmarker and otherwise sets the component's \<^verbatim>\<open>settingNumHands\<close>
  and subscribes to \<^verbatim>\<open>waitForInitialization()\<close>.
\<close>

definition numHandsEffect :: "camera_settings \<Rightarrow> camera_settings" where
  "numHandsEffect s =
     (case handLandmarker s of
        None \<Rightarrow> s
      | Some h \<Rightarrow> s\<lparr>uiSettingNumHands := True\<rparr>)"

text \<open>
  The \<^verbatim>\<open>then\<close> callback of the effect, on the hand landmarker as it is when the
  initialization promise resolves; \<open>twoHands\<close> is the value of \<^verbatim>\<open>trackTwoHands\<close> the
  effect closed over.
\<close>

definition numHandsEffect_then :: "bool \<Rightarrow> hand_landmarker \<Rightarrow> hand_landmarker" where
  "numHandsEffect_then twoHands h =
     (if settingNumHands h then h
      else setNumHands (if twoHands then 2 else 1) h)"

text \<open>
  The outcome of a promise: resolved with a value, or rejected with a message.
\<close>

datatype 'a outcome = Resolved 'a | Rejected string

text \<open>
  The whole promise chain of the effect once \<^verbatim>\<open>waitForInitialization()\<close> has settled:
  \<^verbatim>\<open>then\<close> on resolution, \<^verbatim>\<open>catch\<close> (which only logs) on rejection, and
  \<^verbatim>\<open>finally\<close> in both cases. Nothing was subscribed when the effect returned early.
\<close>

definition numHandsEffect_settled ::
  "bool \<Rightarrow> unit outcome \<Rightarrow> camera_settings \<Rightarrow> camera_settings" where
  "numHandsEffect_settled twoHands initialization s =
     (case handLandmarker s of
        None \<Rightarrow> s
      | Some h \<Rightarrow>
          (case initialization of
             Resolved u \<Rightarrow>
               s\<lparr>handLandmarker := Some (numHandsEffect_then twoHands h),
                 uiSettingNumHands := False\<rparr>
           | Rejected msg \<Rightarrow> s\<lparr>uiSettingNumHands := False\<rparr>))"

subsection \<open>Webcam preview component: the per-frame driver\<close>

text \<open>
  What the component does to its collaborators, in program order. The remote server
  (\<^verbatim>\<open>requests\<close>), the video processor, the toast, the console and the caller's
  callbacks are external; every call to one of them is an event of the trace.
\<close>

type_synonym chunk = nat

datatype toast_status = StatusWarning | StatusError

datatype event =
    ProcessFrame frame
  | DrawHands
  | GetConnectionSettings
  | IsRecording
  | Toast string toast_status
  | OnStartRecordingFailed
  | SetRecording bool
  | VpStartRecording
  | VpStopRecording
  | ConsoleLog
  | ConsoleError
  | SetRecordingInProgress bool
  | SetRecordingOnServer bool
  | OnRecordingStop "chunk list" nat
  | ClearRecordedChunks

text \<open>
  The fields of the video processor that the component reads after a stop.
\<close>

record video_processor =
  recordedChunks :: "chunk list"
  frameCount :: nat
  recordingStartTime :: nat

text \<open>
  A promise the component has created and does not await: the remote start command and
  the remote stop command. Their callbacks run when the server answers.
\<close>

datatype detached = StartMirror | StopMirror

text \<open>
  The component: the object behind \<^verbatim>\<open>handLandmarkerRef\<close> (\<open>None\<close> for undefined),
  whether \<^verbatim>\<open>canvasRef.current\<close> is set, the two state variables
  (\<^verbatim>\<open>recordingOnServer\<close> starts undefined), the video processor behind
  \<^verbatim>\<open>videoProcessorRef\<close>, the trace, and the detached promises not yet settled.
\<close>

record webcam_preview =
  handLandmarkerRef :: "hand_landmarker option"
  canvasRef :: bool
  recordingInProgress :: bool
  recordingOnServer :: "bool option"
  videoProcessor :: video_processor
  trace :: "event list"
  pending :: "detached list"

definition emit :: "event \<Rightarrow> webcam_preview \<Rightarrow> webcam_preview" where
  "emit e c = c\<lparr>trace := trace c @ [e]\<rparr>"

definition setRecordingInProgress :: "bool \<Rightarrow> webcam_preview \<Rightarrow> webcam_preview" where
  "setRecordingInProgress b c = emit (SetRecordingInProgress b) (c\<lparr>recordingInProgress := b\<rparr>)"

definition setRecordingOnServer :: "bool \<Rightarrow> webcam_preview \<Rightarrow> webcam_preview" where
  "setRecordingOnServer b c = emit (SetRecordingOnServer b) (c\<lparr>recordingOnServer := Some b\<rparr>)"

text \<open>
  The guard of \<^verbatim>\<open>handleFrameProcessed\<close>: a hand landmarker exists, is initialized, and
  neither \<^verbatim>\<open>processingFrame\<close> nor \<^verbatim>\<open>processingVideo\<close> is raised.
\<close>

definition eligible :: "webcam_preview \<Rightarrow> bool" where
  "eligible c =
     (case handLandmarkerRef c of
        None \<Rightarrow> False
      | Some h \<Rightarrow> initialized h \<and> \<not> processingFrame h \<and> \<not> processingVideo h)"

text \<open>
  \<^verbatim>\<open>handleFrameProcessed\<close>, the callback the video processor runs on every frame: under
  the guard it calls \<^verbatim>\<open>processFrame\<close>; otherwise it does nothing with the frame.
\<close>

definition handleFrameProcessed :: "frame \<Rightarrow> webcam_preview \<Rightarrow> webcam_preview" where
  "handleFrameProcessed frame c =
     (case handLandmarkerRef c of
        None \<Rightarrow> c
      | Some h \<Rightarrow>
          if initialized h \<and> \<not> processingFrame h \<and> \<not> processingVideo h
          then emit (ProcessFrame frame) (c\<lparr>handLandmarkerRef := Some (processFrame frame h)\<rparr>)
          else c)"

text \<open>
  The settling of the oldest outstanding \<^verbatim>\<open>processFrame\<close> promise: the landmarker
  resets its flag, and on resolution the \<^verbatim>\<open>then\<close> callback of the driver draws the
  hands if the canvas is mounted.
\<close>

definition inferenceSettled :: "unit outcome \<Rightarrow> webcam_preview \<Rightarrow> webcam_preview" where
  "inferenceSettled result c =
     (case handLandmarkerRef c of
        None \<Rightarrow> c
      | Some h \<Rightarrow>
          if inFlight h = [] then c
          else
            (let c1 = c\<lparr>handLandmarkerRef := Some (processFrame_settled h)\<rparr>
             in case result of
                  Resolved u \<Rightarrow> if canvasRef c1 then emit DrawHands c1 else c1
                | Rejected msg \<Rightarrow> c1))"

text \<open>
  What can happen to the driver and the hand landmarker it shares with the rest of the
  application: the engine becomes ready, a frame arrives, an inference call settles, a
  bulk reprocessing of a finished recording is requested, a bulk reprocessing settles.
\<close>

datatype pipeline_event =
    InitializationCompletes
  | FrameArrives frame
  | InferenceSettles "unit outcome"
  | BulkRequested
  | BulkSettles

fun pipelineStep :: "webcam_preview \<Rightarrow> pipeline_event \<Rightarrow> webcam_preview" where
  "pipelineStep c InitializationCompletes =
     c\<lparr>handLandmarkerRef := map_option (\<lambda>h. h\<lparr>initialized := True\<rparr>) (handLandmarkerRef c)\<rparr>"
| "pipelineStep c (FrameArrives f) = handleFrameProcessed f c"
| "pipelineStep c (InferenceSettles r) = inferenceSettled r c"
| "pipelineStep c BulkRequested =
     c\<lparr>handLandmarkerRef := map_option processVideo (handLandmarkerRef c)\<rparr>"
| "pipelineStep c BulkSettles =
     c\<lparr>handLandmarkerRef := map_option processVideo_settled (handLandmarkerRef c)\<rparr>"

definition pipelineRun :: "pipeline_event list \<Rightarrow> webcam_preview \<Rightarrow> webcam_preview" where
  "pipelineRun evs c = foldl pipelineStep c evs"

text \<open>
  The number of live inference calls and of bulk-reprocessing calls outstanding.
\<close>

definition liveOutstanding :: "webcam_preview \<Rightarrow> nat" where
  "liveOutstanding c = (case handLandmarkerRef c of None \<Rightarrow> 0 | Some h \<Rightarrow> length (inFlight h))"

definition bulkOutstanding :: "webcam_preview \<Rightarrow> nat" where
  "bulkOutstanding c = (case handLandmarkerRef c of None \<Rightarrow> 0 | Some h \<Rightarrow> bulkInFlight h)"

text \<open>
  The flags of a hand landmarker tell the truth about its outstanding calls: each flag is
  raised exactly when a call of its kind is outstanding, at most one call of each kind is
  outstanding, and not one of each. A freshly constructed landmarker is in this state.
\<close>

definition flagsAccurate :: "webcam_preview \<Rightarrow> bool" where
  "flagsAccurate c =
     (case handLandmarkerRef c of
        None \<Rightarrow> True
      | Some h \<Rightarrow>
          (processingFrame h \<longleftrightarrow> inFlight h \<noteq> []) \<and> length (inFlight h) \<le> 1 \<and>
          (processingVideo h \<longleftrightarrow> bulkInFlight h \<noteq> 0) \<and> bulkInFlight h \<le> 1 \<and>
          \<not> (processingFrame h \<and> processingVideo h))"

definition noOverlap :: "webcam_preview \<Rightarrow> bool" where
  "noOverlap c =
     (liveOutstanding c \<le> 1 \<and> \<not> (0 < liveOutstanding c \<and> 0 < bulkOutstanding c))"

subsection \<open>Webcam preview component: recording\<close>

text \<open>
  The props the recording functions read: the directory handle (\<open>None\<close> for undefined),
  the optional callback \<^verbatim>\<open>onRecordingStop\<close>, given by the outcome of its promise for
  each pair of arguments, and whether the optional callback
  \<^verbatim>\<open>onStartRecordingFailed\<close> is given.
\<close>

record props =
  directoryHandle :: "string option"
  onRecordingStop :: "(chunk list \<Rightarrow> nat \<Rightarrow> unit outcome) option"
  onStartRecordingFailed :: bool

text \<open>
  What the collaborators answer during one run. \<^verbatim>\<open>getConnectionSettings()\<close> gives the
  settings or a falsy value (\<open>None\<close>); \<^verbatim>\<open>isRecording()\<close> gives true, false or
  undefined (\<open>None\<close>); the video processor's \<^verbatim>\<open>startRecording\<close> and
  \<^verbatim>\<open>stopRecording\<close> resolve, leaving the processor in a new state, or reject. The
  \<^verbatim>\<open>requests\<close> module and the \<^verbatim>\<open>VideoProcessor\<close> class are not among the sources, so
  their answers are parameters.
\<close>

record collaborators =
  getConnectionSettings :: "string option"
  isRecording :: "bool option"
  vpStartRecording :: "video_processor \<Rightarrow> video_processor outcome"
  vpStopRecording :: "video_processor \<Rightarrow> video_processor outcome"

datatype error = Error string

text \<open>
  \<^verbatim>\<open>startRecording\<close>, from the query of the connection settings to the end of the
  \<^verbatim>\<open>if (connectionSettings)\<close> block. Both queries are awaited. The result says
  whether the function goes on (\<open>True\<close>) or has returned (\<open>False\<close>). The remote start
  command is not awaited: it is issued and its promise left pending.
\<close>

definition startRecording_server ::
  "props \<Rightarrow> collaborators \<Rightarrow> webcam_preview \<Rightarrow> bool \<times> webcam_preview" where
  "startRecording_server p env c =
     (let c1 = emit GetConnectionSettings c
      in case getConnectionSettings env of
           None \<Rightarrow> (True, c1)
         | Some connectionSettings \<Rightarrow>
             (let c2 = emit IsRecording c1
              in case isRecording env of
                   None \<Rightarrow>
                     (True, emit (Toast ''Failed to get recording status'' StatusWarning) c2)
                 | Some True \<Rightarrow>
                     (let c3 = emit (Toast ''Recording already in progress'' StatusError) c2
                      in (False,
                          if onStartRecordingFailed p then emit OnStartRecordingFailed c3
                          else c3))
                 | Some False \<Rightarrow>
                     (True,
                      (emit (SetRecording True) c2)\<lparr>pending := pending c2 @ [StartMirror]\<rparr>)))"

text \<open>
  The rest of \<^verbatim>\<open>startRecording\<close>: the video processor's \<^verbatim>\<open>startRecording\<close> is
  awaited; if it rejects, so does the function; otherwise the state variable is set.
\<close>

definition startRecording_local ::
  "collaborators \<Rightarrow> webcam_preview \<Rightarrow> (error + unit) \<times> webcam_preview" where
  "startRecording_local env c =
     (let c1 = emit VpStartRecording c
      in case vpStartRecording env (videoProcessor c1) of
           Rejected msg \<Rightarrow> (Inl (Error msg), c1)
         | Resolved vp \<Rightarrow> (Inr (), setRecordingInProgress True (c1\<lparr>videoProcessor := vp\<rparr>)))"

text \<open>
  The error callback \<^verbatim>\<open>startRecording\<close> hands to the video processor, which may run
  it when the encoder fails during the session: the error is logged and
  \<^verbatim>\<open>onStartRecordingFailed\<close> is invoked if given.
\<close>

definition onVideoProcessorError :: "props \<Rightarrow> webcam_preview \<Rightarrow> webcam_preview" where
  "onVideoProcessorError p c =
     (let c1 = emit ConsoleError c
      in if onStartRecordingFailed p then emit OnStartRecordingFailed c1 else c1)"

text \<open>
  The whole of \<^verbatim>\<open>startRecording\<close>. It reads \<^verbatim>\<open>recordingInProgress\<close> and
  \<^verbatim>\<open>directoryHandle\<close> once, on entry, and throws (its promise rejects) if a recording
  is in progress or no directory is selected.
\<close>

definition startRecording ::
  "props \<Rightarrow> collaborators \<Rightarrow> webcam_preview \<Rightarrow> (error + unit) \<times> webcam_preview" where
  "startRecording p env c =
     (if recordingInProgress c then (Inl (Error ''Recording already in progress''), c)
      else if directoryHandle p = None then (Inl (Error ''No directory selected''), c)
      else
        (case startRecording_server p env c of
           (False, c') \<Rightarrow> (Inr (), c')
         | (True, c') \<Rightarrow> startRecording_local env c'))"

text \<open>
  \<^verbatim>\<open>stopRecording\<close>, the block on \<^verbatim>\<open>recordingOnServer\<close>: the state variable is
  reset and the remote stop command is issued, not awaited.
\<close>

definition stopRecording_server :: "webcam_preview \<Rightarrow> webcam_preview" where
  "stopRecording_server c =
     (if recordingOnServer c = Some True
      then (let c1 = setRecordingOnServer False c
            in (emit (SetRecording False) c1)\<lparr>pending := pending c1 @ [StopMirror]\<rparr>)
      else c)"

definition clearRecordedChunks :: "webcam_preview \<Rightarrow> webcam_preview" where
  "clearRecordedChunks c =
     emit ClearRecordedChunks (c\<lparr>videoProcessor := (videoProcessor c)\<lparr>recordedChunks := []\<rparr>\<rparr>)"

text \<open>
  The rest of \<^verbatim>\<open>stopRecording\<close>: the video processor's \<^verbatim>\<open>stopRecording\<close> is awaited,
  the average frame rate is logged, the state variable is reset, the caller's callback
  (if given) is awaited with the processor's chunks and start time, and the chunks are
  cleared. A rejection at either await ends the function there.
\<close>

definition stopRecording_local ::
  "props \<Rightarrow> collaborators \<Rightarrow> webcam_preview \<Rightarrow> (error + unit) \<times> webcam_preview" where
  "stopRecording_local p env c =
     (let c1 = emit VpStopRecording c
      in case vpStopRecording env (videoProcessor c1) of
           Rejected msg \<Rightarrow> (Inl (Error msg), c1)
         | Resolved vp \<Rightarrow>
             (let c2 = emit ConsoleLog (c1\<lparr>videoProcessor := vp\<rparr>);
                  c3 = setRecordingInProgress False c2
              in case onRecordingStop p of
                   None \<Rightarrow> (Inr (), clearRecordedChunks c3)
                 | Some callback \<Rightarrow>
                     (let c4 = emit (OnRecordingStop (recordedChunks vp) (recordingStartTime vp)) c3
                      in case callback (recordedChunks vp) (recordingStartTime vp) of
                           Rejected msg \<Rightarrow> (Inl (Error msg), c4)
                         | Resolved u \<Rightarrow> (Inr (), clearRecordedChunks c4))))"

definition stopRecording ::
  "props \<Rightarrow> collaborators \<Rightarrow> webcam_preview \<Rightarrow> (error + unit) \<times> webcam_preview" where
  "stopRecording p env c =
     (if \<not> recordingInProgress c then (Inl (Error ''Recording not in progress''), c)
      else stopRecording_local p env (stopRecording_server c))"

text \<open>
  Suspension points. A function suspended at an \<^verbatim>\<open>await\<close> leaves the component to
  other callbacks until the awaited promise settles. The definitions above run each
  function without interruption; the ones below cut the two functions at the await of the
  video processor, so that what happens in between can be written down.

  \<^verbatim>\<open>startRecording\<close> has called the video processor's \<^verbatim>\<open>startRecording\<close> and is
  suspended there in the state \<open>emit VpStartRecording c\<close>; \<open>startRecording_resume\<close> is
  what it does once that promise has settled, on the component as it is by then.
\<close>

definition startRecording_resume ::
  "collaborators \<Rightarrow> webcam_preview \<Rightarrow> (error + unit) \<times> webcam_preview" where
  "startRecording_resume env c =
     (case vpStartRecording env (videoProcessor c) of
        Rejected msg \<Rightarrow> (Inl (Error msg), c)
      | Resolved vp \<Rightarrow> (Inr (), setRecordingInProgress True (c\<lparr>videoProcessor := vp\<rparr>)))"

text \<open>
  \<^verbatim>\<open>stopRecording\<close> from its entry to its suspension at
  \<^verbatim>\<open>await vp.stopRecording()\<close>: the guard, the block on \<^verbatim>\<open>recordingOnServer\<close>, and
  the call of the video processor's \<^verbatim>\<open>stopRecording\<close>. Nothing on this stretch
  touches \<^verbatim>\<open>recordingInProgress\<close>.
\<close>

definition stopRecording_begin :: "webcam_preview \<Rightarrow> (error + unit) \<times> webcam_preview" where
  "stopRecording_begin c =
     (if \<not> recordingInProgress c then (Inl (Error ''Recording not in progress''), c)
      else (Inr (), emit VpStopRecording (stopRecording_server c)))"

text \<open>
  What \<^verbatim>\<open>stopRecording\<close> does once the video processor's promise has settled, on the
  component as it is by then.
\<close>

definition stopRecording_resume ::
  "props \<Rightarrow> collaborators \<Rightarrow> webcam_preview \<Rightarrow> (error + unit) \<times> webcam_preview" where
  "stopRecording_resume p env c =
     (case vpStopRecording env (videoProcessor c) of
        Rejected msg \<Rightarrow> (Inl (Error msg), c)
      | Resolved vp \<Rightarrow>
          (let c2 = emit ConsoleLog (c\<lparr>videoProcessor := vp\<rparr>);
               c3 = setRecordingInProgress False c2
           in case onRecordingStop p of
                None \<Rightarrow> (Inr (), clearRecordedChunks c3)
              | Some callback \<Rightarrow>
                  (let c4 = emit (OnRecordingStop (recordedChunks vp) (recordingStartTime vp)) c3
                   in case callback (recordedChunks vp) (recordingStartTime vp) of
                        Rejected msg \<Rightarrow> (Inl (Error msg), c4)
                      | Resolved u \<Rightarrow> (Inr (), clearRecordedChunks c4))))"



text \<open>
  The callbacks of a detached remote command, run when the server answers: a confirmed
  start sets \<^verbatim>\<open>recordingOnServer\<close>; a failed start or stop only shows an error toast.
  A command that was never issued has no callbacks to run.
\<close>

definition setRecording_settled ::
  "detached \<Rightarrow> unit outcome \<Rightarrow> webcam_preview \<Rightarrow> webcam_preview" where
  "setRecording_settled d response c =
     (if d \<notin> set (pending c) then c
      else
        (let c1 = c\<lparr>pending := remove1 d (pending c)\<rparr>
         in case (d, response) of
              (StartMirror, Resolved u) \<Rightarrow> setRecordingOnServer True c1
            | (StartMirror, Rejected msg) \<Rightarrow>
                emit (Toast ''Failed to start recording'' StatusError) c1
            | (StopMirror, Resolved u) \<Rightarrow> c1
            | (StopMirror, Rejected msg) \<Rightarrow>
                emit (Toast ''Failed to stop recording'' StatusError) c1))"

text \<open>
  The events a run has added to the trace, and whether the first occurrence of one event
  comes before the first occurrence of another.
\<close>

definition eventsSince :: "webcam_preview \<Rightarrow> webcam_preview \<Rightarrow> event list" where
  "eventsSince c c' = drop (length (trace c)) (trace c')"

definition precedes :: "event \<Rightarrow> event \<Rightarrow> event list \<Rightarrow> bool" where
  "precedes a b tr = (b \<in> set tr \<and> a \<in> set (takeWhile (\<lambda>e. e \<noteq> b) tr))"

subsection \<open>Concrete inputs\<close>

definition exampleTrack :: media_track where
  "exampleTrack = \<lparr>capabilities = [''width'', ''brightness''], appliedConstraints = []\<rparr>"

definition exampleSettings :: camera_settings where
  "exampleSettings =
     \<lparr>videoTrack = Some exampleTrack, handLandmarker = None, trackTwoHands = True,
      uiSettingNumHands = False, exposureTime = 0, exposureCompensation = 0,
      focusDistance = 0, whiteBalance = 0, brightness = 0, contrast = 0, saturation = 0,
      sharpness = 0\<rparr>"

definition idleLandmarker :: hand_landmarker where
  "idleLandmarker =
     \<lparr>initialized = True, processingFrame = False, processingVideo = False,
      settingNumHands = False, inFlight = [], bulkInFlight = 0, numHandsRequests = []\<rparr>"

definition emptyProcessor :: video_processor where
  "emptyProcessor = \<lparr>recordedChunks = [], frameCount = 0, recordingStartTime = 0\<rparr>"

definition idlePreview :: webcam_preview where
  "idlePreview =
     \<lparr>handLandmarkerRef = Some idleLandmarker, canvasRef = True, recordingInProgress = False,
      recordingOnServer = None, videoProcessor = emptyProcessor, trace = [], pending = []\<rparr>"

definition exampleProps :: props where
  "exampleProps =
     \<lparr>directoryHandle = Some ''recordings'',
      onRecordingStop = Some (\<lambda>chunks startTime. Resolved ()),
      onStartRecordingFailed = True\<rparr>"

definition serverIdle :: collaborators where
  "serverIdle =
     \<lparr>getConnectionSettings = Some ''server'', isRecording = Some False,
      vpStartRecording = (\<lambda>vp. Resolved (vp\<lparr>recordingStartTime := 1000\<rparr>)),
      vpStopRecording = (\<lambda>vp. Resolved (vp\<lparr>recordedChunks := [1, 2, 3], frameCount := 3\<rparr>))\<rparr>"

definition serverBusy :: collaborators where
  "serverBusy = serverIdle\<lparr>isRecording := Some True\<rparr>"

definition serverSilent :: collaborators where
  "serverSilent = serverIdle\<lparr>isRecording := None\<rparr>"

definition recordingPreview :: webcam_preview where
  "recordingPreview =
     idlePreview\<lparr>recordingInProgress := True, recordingOnServer := Some True\<rparr>"

definition failingCallbackProps :: props where
  "failingCallbackProps =
     exampleProps\<lparr>onRecordingStop := Some (\<lambda>chunks startTime. Rejected ''disk full'')\<rparr>"

lemmas example_defs =
  idlePreview_def recordingPreview_def exampleProps_def failingCallbackProps_def
  serverIdle_def serverBusy_def serverSilent_def emptyProcessor_def idleLandmarker_def

lemmas recording_defs =
  startRecording_def startRecording_server_def startRecording_local_def
  stopRecording_def stopRecording_server_def stopRecording_local_def
  setRecording_settled_def setRecordingInProgress_def setRecordingOnServer_def
  clearRecordedChunks_def emit_def eventsSince_def precedes_def Let_def

section \<open>Properties\<close>

subsection \<open>Frame-rate options\<close>

lemma loop_nonempty: "frs \<noteq> [] \<Longrightarrow> generateFrameRates_loop frs m \<noteq> []"
  by (induction frs m rule: generateFrameRates_loop.induct)
     (subst generateFrameRates_loop.simps, simp)

lemma loop_hd: "frs \<noteq> [] \<Longrightarrow> hd (generateFrameRates_loop frs m) = hd frs"
proof (induction frs m rule: generateFrameRates_loop.induct)
  case (1 frs m)
  show ?case
  proof (cases "last frs < m")
    case True
    with 1 have "hd (generateFrameRates_loop (frs @ [min (last frs + 30) m]) m)
                 = hd (frs @ [min (last frs + 30) m])" by simp
    with True 1(2) show ?thesis by (subst generateFrameRates_loop.simps) simp
  next
    case False
    then show ?thesis by (subst generateFrameRates_loop.simps) simp
  qed
qed

lemma loop_last: "frs \<noteq> [] \<Longrightarrow> \<not> last (generateFrameRates_loop frs m) < m"
proof (induction frs m rule: generateFrameRates_loop.induct)
  case (1 frs m)
  show ?case
  proof (cases "last frs < m")
    case True
    with 1 show ?thesis by (subst generateFrameRates_loop.simps) simp
  next
    case False
    then show ?thesis by (subst generateFrameRates_loop.simps) simp
  qed
qed

lemma loop_bounded:
  "\<forall>x\<in>set frs. x \<le> m \<Longrightarrow> \<forall>x\<in>set (generateFrameRates_loop frs m). x \<le> m"
proof (induction frs m rule: generateFrameRates_loop.induct)
  case (1 frs m)
  show ?case
  proof (cases "frs \<noteq> [] \<and> last frs < m")
    case True
    have "\<forall>x\<in>set (frs @ [min (last frs + 30) m]). x \<le> m" using 1(2) by simp
    with 1(1) True show ?thesis by (subst generateFrameRates_loop.simps) simp
  next
    case False
    with 1(2) show ?thesis by (subst generateFrameRates_loop.simps) auto
  qed
qed

lemma loop_steps:
  "successively (\<lambda>a b. a < b \<and> b - a \<le> 30) frs
   \<Longrightarrow> successively (\<lambda>a b. a < b \<and> b - a \<le> 30) (generateFrameRates_loop frs m)"
proof (induction frs m rule: generateFrameRates_loop.induct)
  case (1 frs m)
  show ?case
  proof (cases "frs \<noteq> [] \<and> last frs < m")
    case True
    have "successively (\<lambda>a b. a < b \<and> b - a \<le> 30) (frs @ [min (last frs + 30) m])"
      using 1(2) True by (simp add: successively_append_iff min_def)
    with 1(1) True show ?thesis by (subst generateFrameRates_loop.simps) simp
  next
    case False
    with 1(2) show ?thesis by (subst generateFrameRates_loop.simps) auto
  qed
qed

lemma successively_less_sorted:
  "successively (\<lambda>a b. a < b \<and> b - a \<le> 30) (xs :: real list) \<Longrightarrow> sorted_wrt (<) xs"
proof -
  assume "successively (\<lambda>a b. a < b \<and> b - a \<le> 30) xs"
  then have "successively (<) xs" by (rule successively_mono) auto
  then show ?thesis by (simp add: successively_conv_sorted_wrt transp_on_def)
qed

text \<open>
  C9. For every \<open>maxFrameRate \<ge> 30\<close> the list returned by \<open>generateFrameRates\<close> is
  strictly increasing, starts at 30, grows by at most 30 from one element to the next,
  ends exactly at \<open>maxFrameRate\<close> and has no element above it. For every
  \<open>maxFrameRate < 30\<close> the list is \<open>[30]\<close>, whose element is above \<open>maxFrameRate\<close>.
\<close>

theorem generateFrameRates_shape:
  "(30 \<le> maxFrameRate \<longrightarrow>
      sorted_wrt (<) (generateFrameRates maxFrameRate) \<and>
      hd (generateFrameRates maxFrameRate) = 30 \<and>
      successively (\<lambda>a b. b - a \<le> 30) (generateFrameRates maxFrameRate) \<and>
      generateFrameRates maxFrameRate \<noteq> [] \<and>
      last (generateFrameRates maxFrameRate) = maxFrameRate \<and>
      (\<forall>x \<in> set (generateFrameRates maxFrameRate). x \<le> maxFrameRate)) \<and>
   (maxFrameRate < 30 \<longrightarrow>
      generateFrameRates maxFrameRate = [30] \<and>
      (\<forall>x \<in> set (generateFrameRates maxFrameRate). maxFrameRate < x))"
proof (intro conjI impI)
  assume ge: "30 \<le> maxFrameRate"
  let ?r = "generateFrameRates maxFrameRate"
  have st: "successively (\<lambda>a b. a < b \<and> b - a \<le> 30) ?r"
    unfolding generateFrameRates_def by (rule loop_steps) simp
  show "sorted_wrt (<) ?r" using st by (rule successively_less_sorted)
  show "hd ?r = 30" unfolding generateFrameRates_def by (simp add: loop_hd)
  show "successively (\<lambda>a b. b - a \<le> 30) ?r"
    using st by (rule successively_mono) auto
  show ne: "?r \<noteq> []" unfolding generateFrameRates_def by (simp add: loop_nonempty)
  show bd: "\<forall>x \<in> set ?r. x \<le> maxFrameRate"
    unfolding generateFrameRates_def by (rule loop_bounded) (simp add: ge)
  have "\<not> last ?r < maxFrameRate"
    unfolding generateFrameRates_def by (rule loop_last) simp
  moreover have "last ?r \<le> maxFrameRate" using bd ne last_in_set by blast
  ultimately show "last ?r = maxFrameRate" by simp
next
  assume lt: "maxFrameRate < 30"
  then show g: "generateFrameRates maxFrameRate = [30]"
    unfolding generateFrameRates_def by (subst generateFrameRates_loop.simps) simp
  show "\<forall>x \<in> set (generateFrameRates maxFrameRate). maxFrameRate < x"
    using lt by (simp add: g)
qed

theorem generateFrameRates_shape_witness:
  "(30::real) \<le> 75 \<and> generateFrameRates 75 = [30, 60, 75] \<and>
   hd (generateFrameRates 75) = 30 \<and> last (generateFrameRates 75) = 75 \<and>
   (24::real) < 30 \<and> generateFrameRates 24 = [30]"
  using generateFrameRates_shape [of 75] generateFrameRates_shape [of 24]
  by (simp add: generateFrameRates_def generateFrameRates_loop.simps)

subsection \<open>Camera settings\<close>

lemma applyIfCapable_None: "applyIfCapable k v None = None"
  by (simp add: applyIfCapable_def)

lemma applyIfCapable_Some:
  "applyIfCapable k v (Some t) =
     Some (if capabilityKey k \<in> set (capabilities t)
           then applyConstraints (capabilityKey k) v t else t)"
  by (simp add: applyIfCapable_def)

lemma numericHandlers_shape:
  assumes "(h, k, g) \<in> set numericHandlers"
  shows "g (h v s) = v \<and> videoTrack (h v s) = applyIfCapable k v (videoTrack s)"
  using assms
  by (auto simp: numericHandlers_def handleExposureTimeChange_def
        handleExposureCompensationChange_def handleFocusDistanceChange_def
        handleWhiteBalanceChange_def handleBrightnessChange_def handleContrastChange_def
        handleSaturationChange_def handleSharpnessChange_def)

text \<open>
  C10. Each of the eight numeric change handlers (exposure time, exposure compensation,
  focus distance, white-balance temperature, brightness, contrast, saturation, sharpness)
  always stores the new value in its state variable. It calls \<open>applyConstraints\<close> on the
  video track, with its own key and the new value, when the track reports the capability;
  when the track does not report it, or there is no track, the track is left as it was.
  So the track changes only if the capability key is present.
\<close>

theorem numeric_handlers_capability_gated:
  assumes "(h, k, g) \<in> set numericHandlers"
  shows "g (h v s) = v \<and>
         (videoTrack s = None \<longrightarrow> videoTrack (h v s) = None) \<and>
         (\<forall>t. videoTrack s = Some t \<longrightarrow>
            (capabilityKey k \<in> set (capabilities t) \<longrightarrow>
               videoTrack (h v s) = Some (applyConstraints (capabilityKey k) v t)) \<and>
            (capabilityKey k \<notin> set (capabilities t) \<longrightarrow>
               videoTrack (h v s) = videoTrack s)) \<and>
         (videoTrack (h v s) \<noteq> videoTrack s \<longrightarrow>
            (\<exists>t. videoTrack s = Some t \<and> capabilityKey k \<in> set (capabilities t)))"
proof -
  from assms have a: "g (h v s) = v"
    and b: "videoTrack (h v s) = applyIfCapable k v (videoTrack s)"
    using numericHandlers_shape by blast+
  show ?thesis
  proof (cases "videoTrack s")
    case None
    with a b show ?thesis by (simp add: applyIfCapable_None)
  next
    case (Some t)
    with a b show ?thesis by (simp add: applyIfCapable_Some)
  qed
qed

theorem numeric_handlers_capability_gated_witness:
  "(handleBrightnessChange, Brightness, brightness) \<in> set numericHandlers \<and>
   (handleContrastChange, Contrast, contrast) \<in> set numericHandlers \<and>
   brightness (handleBrightnessChange 7 exampleSettings) = 7 \<and>
   videoTrack (handleBrightnessChange 7 exampleSettings) =
     Some (exampleTrack\<lparr>appliedConstraints := [(''brightness'', 7)]\<rparr>) \<and>
   contrast (handleContrastChange 5 exampleSettings) = 5 \<and>
   videoTrack (handleContrastChange 5 exampleSettings) = Some exampleTrack"
proof -
  have b: "(handleBrightnessChange, Brightness, brightness) \<in> set numericHandlers"
    and c: "(handleContrastChange, Contrast, contrast) \<in> set numericHandlers"
    by (simp_all add: numericHandlers_def)
  from numeric_handlers_capability_gated [OF b, of 7 exampleSettings]
       numeric_handlers_capability_gated [OF c, of 5 exampleSettings] b c
  show ?thesis
    by (simp add: exampleSettings_def exampleTrack_def applyConstraints_def)
qed

text \<open>
  C8. While the hand landmarker's \<open>settingNumHands\<close> is true, the two-hands toggle
  handler returns without changing anything, and the \<open>then\<close> callback of the
  configuration effect, which runs once initialization has completed, returns without
  calling \<open>setNumHands\<close>: the landmarker is left as it was. While the flag is false the
  toggle is stored and the effect requests two hands or one.
\<close>

theorem numHands_change_in_flight_rejects:
  assumes "handLandmarker s = Some h"
  shows "(settingNumHands h \<longrightarrow>
            handleTrackTwoHandsChange v s = s \<and>
            numHandsEffect_then twoHands h = h \<and>
            handLandmarker (numHandsEffect_settled twoHands (Resolved ()) s) = Some h) \<and>
         (\<not> settingNumHands h \<longrightarrow>
            trackTwoHands (handleTrackTwoHandsChange v s) = v \<and>
            numHandsRequests (numHandsEffect_then twoHands h) =
              numHandsRequests h @ [if twoHands then 2 else 1])"
  using assms
  by (simp add: handleTrackTwoHandsChange_def numHandsEffect_then_def
        numHandsEffect_settled_def setNumHands_def)

theorem numHands_change_in_flight_rejects_witness:
  "handLandmarker (exampleSettings\<lparr>handLandmarker :=
       Some (idleLandmarker\<lparr>settingNumHands := True\<rparr>)\<rparr>) =
     Some (idleLandmarker\<lparr>settingNumHands := True\<rparr>) \<and>
   settingNumHands (idleLandmarker\<lparr>settingNumHands := True\<rparr>) \<and>
   handleTrackTwoHandsChange False
     (exampleSettings\<lparr>handLandmarker := Some (idleLandmarker\<lparr>settingNumHands := True\<rparr>)\<rparr>) =
     exampleSettings\<lparr>handLandmarker := Some (idleLandmarker\<lparr>settingNumHands := True\<rparr>)\<rparr> \<and>
   numHandsRequests (numHandsEffect_then False (idleLandmarker\<lparr>settingNumHands := True\<rparr>)) = [] \<and>
   handLandmarker (exampleSettings\<lparr>handLandmarker := Some idleLandmarker\<rparr>) =
     Some idleLandmarker \<and>
   \<not> settingNumHands idleLandmarker \<and>
   trackTwoHands (handleTrackTwoHandsChange False
     (exampleSettings\<lparr>handLandmarker := Some idleLandmarker\<rparr>)) = False \<and>
   numHandsRequests (numHandsEffect_then False idleLandmarker) = [1]"
  using numHands_change_in_flight_rejects
          [of "exampleSettings\<lparr>handLandmarker := Some (idleLandmarker\<lparr>settingNumHands := True\<rparr>)\<rparr>"
              "idleLandmarker\<lparr>settingNumHands := True\<rparr>" False False]
        numHands_change_in_flight_rejects
          [of "exampleSettings\<lparr>handLandmarker := Some idleLandmarker\<rparr>" idleLandmarker False False]
  by (simp add: idleLandmarker_def)

subsection \<open>The per-frame driver\<close>

lemma flagsAccurate_noOverlap: "flagsAccurate c \<Longrightarrow> noOverlap c"
  by (auto simp: flagsAccurate_def noOverlap_def liveOutstanding_def bulkOutstanding_def
           split: option.splits)

lemma flagsAccurate_frame: "flagsAccurate c \<Longrightarrow> flagsAccurate (handleFrameProcessed f c)"
  by (auto simp: flagsAccurate_def handleFrameProcessed_def processFrame_def emit_def
           split: option.splits)

lemma flagsAccurate_settled: "flagsAccurate c \<Longrightarrow> flagsAccurate (inferenceSettled r c)"
  by (auto simp: flagsAccurate_def inferenceSettled_def processFrame_settled_def emit_def Let_def
           split: option.splits list.splits outcome.splits)

lemma flagsAccurate_bulk:
  "flagsAccurate c \<Longrightarrow>
   flagsAccurate (c\<lparr>handLandmarkerRef := map_option processVideo (handLandmarkerRef c)\<rparr>)"
  by (auto simp: flagsAccurate_def processVideo_def split: option.splits)

lemma flagsAccurate_bulk_settled:
  "flagsAccurate c \<Longrightarrow>
   flagsAccurate (c\<lparr>handLandmarkerRef := map_option processVideo_settled (handLandmarkerRef c)\<rparr>)"
  by (auto simp: flagsAccurate_def processVideo_settled_def split: option.splits)

lemma flagsAccurate_initialized:
  "flagsAccurate c \<Longrightarrow>
   flagsAccurate
     (c\<lparr>handLandmarkerRef := map_option (\<lambda>h. h\<lparr>initialized := True\<rparr>) (handLandmarkerRef c)\<rparr>)"
  by (auto simp: flagsAccurate_def split: option.splits)

lemma flagsAccurate_step: "flagsAccurate c \<Longrightarrow> flagsAccurate (pipelineStep c e)"
  by (cases e)
     (simp_all add: flagsAccurate_initialized flagsAccurate_frame flagsAccurate_settled
        flagsAccurate_bulk flagsAccurate_bulk_settled)

lemma flagsAccurate_run: "flagsAccurate c \<Longrightarrow> flagsAccurate (pipelineRun evs c)"
  unfolding pipelineRun_def
  by (induction evs arbitrary: c) (simp_all add: flagsAccurate_step)

lemma handleFrameProcessed_eligible:
  "handleFrameProcessed f c =
     (if eligible c
      then emit (ProcessFrame f)
             (c\<lparr>handLandmarkerRef := map_option (processFrame f) (handLandmarkerRef c)\<rparr>)
      else c)"
  by (simp add: handleFrameProcessed_def eligible_def split: option.splits)

text \<open>
  C1. The driver calls \<open>processFrame\<close> for a delivered frame exactly when a hand
  landmarker exists with \<open>initialized\<close> true and \<open>processingFrame\<close> and
  \<open>processingVideo\<close> false. A frame that arrives while the guard fails is dropped: the
  component is left exactly as it was, so no inference call is made and nothing is
  queued. Under the guard the only event is the one call, which becomes outstanding.
  Hence, starting from a landmarker whose flags are accurate, after any sequence of frame
  arrivals, settled inference calls, bulk requests, settled bulk calls and completed
  initializations there is at most one inference call outstanding, and never an inference
  call together with a bulk-reprocessing call.
\<close>

theorem frames_dropped_unless_eligible:
  "(eligible c \<longleftrightarrow>
      (\<exists>h. handLandmarkerRef c = Some h \<and>
           initialized h \<and> \<not> processingFrame h \<and> \<not> processingVideo h)) \<and>
   (\<not> eligible c \<longrightarrow> handleFrameProcessed f c = c) \<and>
   (eligible c \<longrightarrow>
      eventsSince c (handleFrameProcessed f c) = [ProcessFrame f] \<and>
      liveOutstanding (handleFrameProcessed f c) = Suc (liveOutstanding c)) \<and>
   (flagsAccurate c \<longrightarrow> (\<forall>evs. noOverlap (pipelineRun evs c)))"
proof (intro conjI impI allI)
  show "eligible c \<longleftrightarrow>
      (\<exists>h. handLandmarkerRef c = Some h \<and>
           initialized h \<and> \<not> processingFrame h \<and> \<not> processingVideo h)"
    by (simp add: eligible_def split: option.splits)
next
  assume "\<not> eligible c"
  then show "handleFrameProcessed f c = c" by (simp add: handleFrameProcessed_eligible)
next
  assume e: "eligible c"
  then show "eventsSince c (handleFrameProcessed f c) = [ProcessFrame f]"
    by (simp add: handleFrameProcessed_eligible eventsSince_def emit_def)
  from e show "liveOutstanding (handleFrameProcessed f c) = Suc (liveOutstanding c)"
    by (auto simp: handleFrameProcessed_eligible eligible_def liveOutstanding_def emit_def
          processFrame_def split: option.splits)
next
  fix evs
  assume "flagsAccurate c"
  then show "noOverlap (pipelineRun evs c)"
    by (intro flagsAccurate_noOverlap flagsAccurate_run)
qed

theorem frames_dropped_unless_eligible_witness:
  "flagsAccurate idlePreview \<and> eligible idlePreview \<and>
   \<not> eligible (handleFrameProcessed 1 idlePreview) \<and>
   handleFrameProcessed 2 (handleFrameProcessed 1 idlePreview) = handleFrameProcessed 1 idlePreview \<and>
   trace (pipelineRun [FrameArrives 1, FrameArrives 2, BulkRequested,
            InferenceSettles (Resolved ()), BulkRequested, FrameArrives 3, BulkSettles,
            FrameArrives 4] idlePreview) = [ProcessFrame 1, DrawHands, ProcessFrame 4] \<and>
   noOverlap (pipelineRun [FrameArrives 1, FrameArrives 2, BulkRequested,
            InferenceSettles (Resolved ()), BulkRequested, FrameArrives 3, BulkSettles,
            FrameArrives 4] idlePreview)"
proof -
  have a: "flagsAccurate idlePreview"
    by (simp add: flagsAccurate_def idlePreview_def idleLandmarker_def)
  have b: "eligible idlePreview"
    by (simp add: eligible_def idlePreview_def idleLandmarker_def)
  have c: "\<not> eligible (handleFrameProcessed 1 idlePreview)"
    by (simp add: eligible_def handleFrameProcessed_def idlePreview_def idleLandmarker_def
          processFrame_def emit_def)
  have d: "trace (pipelineRun [FrameArrives 1, FrameArrives 2, BulkRequested,
            InferenceSettles (Resolved ()), BulkRequested, FrameArrives 3, BulkSettles,
            FrameArrives 4] idlePreview) = [ProcessFrame 1, DrawHands, ProcessFrame 4]"
    by (simp add: pipelineRun_def handleFrameProcessed_def inferenceSettled_def
          processFrame_def processFrame_settled_def processVideo_def processVideo_settled_def
          emit_def idlePreview_def idleLandmarker_def)
  from frames_dropped_unless_eligible [of idlePreview 1]
       frames_dropped_unless_eligible [of "handleFrameProcessed 1 idlePreview" 2] a b c d
  show ?thesis by simp
qed


subsection \<open>Recording\<close>

lemma trace_emit [simp]: "trace (emit e c) = trace c @ [e]"
  by (simp add: emit_def)

lemma eventsSince_append [simp]: "trace c' = trace c @ evs \<Longrightarrow> eventsSince c c' = evs"
  by (simp add: eventsSince_def)

lemma setRecording_settled_local [simp]:
  "recordingInProgress (setRecording_settled d r c) = recordingInProgress c"
  "videoProcessor (setRecording_settled d r c) = videoProcessor c"
  by (auto simp: setRecording_settled_def Let_def setRecordingOnServer_def emit_def
        split: detached.splits outcome.splits)

lemma setRecording_settled_onServer:
  "recordingOnServer (setRecording_settled d r c) =
     (if d = StartMirror \<and> d \<in> set (pending c) \<and> r = Resolved () then Some True
      else recordingOnServer c)"
  by (auto simp: setRecording_settled_def Let_def setRecordingOnServer_def emit_def
        split: detached.splits outcome.splits)

lemma startRecording_local_flag:
  "recordingInProgress (snd (startRecording_local env c)) =
     (case vpStartRecording env (videoProcessor c) of
        Resolved vp \<Rightarrow> True | Rejected m \<Rightarrow> recordingInProgress c)"
  by (simp add: startRecording_local_def Let_def setRecordingInProgress_def emit_def
        split: outcome.splits)

lemma stopRecording_local_flag:
  "recordingInProgress (snd (stopRecording_local p env c)) =
     (case vpStopRecording env (videoProcessor c) of
        Resolved vp \<Rightarrow> False | Rejected m \<Rightarrow> recordingInProgress c)"
  by (simp add: stopRecording_local_def Let_def setRecordingInProgress_def emit_def
        clearRecordedChunks_def split: outcome.splits option.splits)

lemma stopRecording_server_local [simp]:
  "videoProcessor (stopRecording_server c) = videoProcessor c"
  "recordingInProgress (stopRecording_server c) = recordingInProgress c"
  by (simp_all add: stopRecording_server_def Let_def setRecordingOnServer_def emit_def)

lemma startRecording_server_local [simp]:
  "videoProcessor (snd (startRecording_server p env c)) = videoProcessor c"
  "recordingInProgress (snd (startRecording_server p env c)) = recordingInProgress c"
  "recordingOnServer (snd (startRecording_server p env c)) = recordingOnServer c"
  by (auto simp: startRecording_server_def Let_def emit_def split: option.splits bool.splits)

lemma stopRecording_server_trace:
  "trace (stopRecording_server c) =
     trace c @ (if recordingOnServer c = Some True
                then [SetRecordingOnServer False, SetRecording False] else [])"
  by (simp add: stopRecording_server_def Let_def setRecordingOnServer_def emit_def)

lemma startRecording_server_trace:
  "trace (snd (startRecording_server p env c)) =
     trace c @ GetConnectionSettings #
       (case getConnectionSettings env of
          None \<Rightarrow> []
        | Some s \<Rightarrow>
            IsRecording #
              (case isRecording env of
                 None \<Rightarrow> [Toast ''Failed to get recording status'' StatusWarning]
               | Some True \<Rightarrow>
                   Toast ''Recording already in progress'' StatusError #
                     (if onStartRecordingFailed p then [OnStartRecordingFailed] else [])
               | Some False \<Rightarrow> [SetRecording True]))"
  by (simp add: startRecording_server_def Let_def emit_def split: option.splits bool.splits)

lemma startRecording_server_continue:
  "fst (startRecording_server p env c) \<longleftrightarrow>
     \<not> (getConnectionSettings env \<noteq> None \<and> isRecording env = Some True)"
  by (simp add: startRecording_server_def Let_def split: option.splits bool.splits)

lemma startRecording_server_pending:
  "pending (snd (startRecording_server p env c)) =
     pending c @ (if getConnectionSettings env \<noteq> None \<and> isRecording env = Some False
                  then [StartMirror] else [])"
  by (simp add: startRecording_server_def Let_def emit_def split: option.splits bool.splits)

lemma startRecording_local_trace:
  "trace (snd (startRecording_local env c)) =
     trace c @ VpStartRecording #
       (case vpStartRecording env (videoProcessor c) of
          Resolved vp \<Rightarrow> [SetRecordingInProgress True] | Rejected m \<Rightarrow> [])"
  by (simp add: startRecording_local_def Let_def emit_def setRecordingInProgress_def
        split: outcome.splits)

lemma startRecording_local_pending [simp]:
  "pending (snd (startRecording_local env c)) = pending c"
  by (simp add: startRecording_local_def Let_def emit_def setRecordingInProgress_def
        split: outcome.splits)

lemma startRecording_unfold:
  "startRecording p env c =
     (if recordingInProgress c then (Inl (Error ''Recording already in progress''), c)
      else if directoryHandle p = None then (Inl (Error ''No directory selected''), c)
      else if fst (startRecording_server p env c)
           then startRecording_local env (snd (startRecording_server p env c))
           else (Inr (), snd (startRecording_server p env c)))"
  by (simp add: startRecording_def split: prod.splits bool.splits)

lemma startRecording_local_split:
  "startRecording_local env c = startRecording_resume env (emit VpStartRecording c)"
  by (simp add: startRecording_local_def startRecording_resume_def Let_def)

lemma stopRecording_split:
  "stopRecording p env c =
     (case stopRecording_begin c of
        (Inl e, c') \<Rightarrow> (Inl e, c')
      | (Inr u, c') \<Rightarrow> stopRecording_resume p env c')"
  by (simp add: stopRecording_def stopRecording_begin_def stopRecording_local_def
        stopRecording_resume_def Let_def)

lemma stopRecording_local_trace:
  "trace (snd (stopRecording_local p env c)) =
     trace c @ VpStopRecording #
       (case vpStopRecording env (videoProcessor c) of
          Rejected m \<Rightarrow> []
        | Resolved vp \<Rightarrow>
            ConsoleLog # SetRecordingInProgress False #
              (case onRecordingStop p of
                 None \<Rightarrow> [ClearRecordedChunks]
               | Some callback \<Rightarrow>
                   OnRecordingStop (recordedChunks vp) (recordingStartTime vp) #
                     (case callback (recordedChunks vp) (recordingStartTime vp) of
                        Rejected m \<Rightarrow> []
                      | Resolved u \<Rightarrow> [ClearRecordedChunks])))"
  by (simp add: stopRecording_local_def Let_def setRecordingInProgress_def emit_def
        clearRecordedChunks_def split: outcome.splits option.splits)

lemma stopRecording_local_processor:
  "vpStopRecording env (videoProcessor c) = Resolved vp \<Longrightarrow>
   frameCount (videoProcessor (snd (stopRecording_local p env c))) = frameCount vp \<and>
   recordingStartTime (videoProcessor (snd (stopRecording_local p env c))) =
     recordingStartTime vp"
  by (simp add: stopRecording_local_def Let_def setRecordingInProgress_def emit_def
        clearRecordedChunks_def split: outcome.splits option.splits)

lemma stopRecording_resume_trace:
  "vpStopRecording env (videoProcessor c) = Resolved vp \<Longrightarrow>
   \<exists>rest. trace (snd (stopRecording_resume p env c)) =
            trace c @ ConsoleLog # SetRecordingInProgress False # rest"
  by (simp add: stopRecording_resume_def Let_def setRecordingInProgress_def emit_def
        clearRecordedChunks_def split: option.splits outcome.splits)

lemma stopRecording_resume_flag:
  "vpStopRecording env (videoProcessor c) = Resolved vp \<Longrightarrow>
   \<not> recordingInProgress (snd (stopRecording_resume p env c))"
  by (simp add: stopRecording_resume_def Let_def setRecordingInProgress_def emit_def
        clearRecordedChunks_def split: option.splits outcome.splits)




text \<open>
  C2. When a server is connected and reports that it is already recording, a start
  requested in the idle state returns without starting anything: the video processor's
  \<open>startRecording\<close> is not invoked, \<open>recordingInProgress\<close> stays false, no remote start
  command is issued or left pending, and after the error toast the caller's
  \<open>onStartRecordingFailed\<close> callback (an optional prop) is invoked if it was given.
\<close>

theorem remote_conflict_aborts_start:
  assumes "\<not> recordingInProgress c" and "directoryHandle p \<noteq> None"
    and "getConnectionSettings env \<noteq> None" and "isRecording env = Some True"
  shows "fst (startRecording p env c) = Inr () \<and>
         eventsSince c (snd (startRecording p env c)) =
           [GetConnectionSettings, IsRecording,
            Toast ''Recording already in progress'' StatusError] @
           (if onStartRecordingFailed p then [OnStartRecordingFailed] else []) \<and>
         VpStartRecording \<notin> set (eventsSince c (snd (startRecording p env c))) \<and>
         SetRecording True \<notin> set (eventsSince c (snd (startRecording p env c))) \<and>
         \<not> recordingInProgress (snd (startRecording p env c)) \<and>
         videoProcessor (snd (startRecording p env c)) = videoProcessor c \<and>
         recordingOnServer (snd (startRecording p env c)) = recordingOnServer c \<and>
         pending (snd (startRecording p env c)) = pending c"
  using assms
  by (auto simp: startRecording_def startRecording_server_def Let_def eventsSince_def emit_def)


theorem remote_conflict_aborts_start_witness:
  "\<not> recordingInProgress idlePreview \<and> directoryHandle exampleProps \<noteq> None \<and>
   getConnectionSettings serverBusy \<noteq> None \<and> isRecording serverBusy = Some True \<and>
   startRecording exampleProps serverBusy idlePreview =
     (Inr (), idlePreview\<lparr>trace :=
        [GetConnectionSettings, IsRecording,
         Toast ''Recording already in progress'' StatusError, OnStartRecordingFailed]\<rparr>) \<and>
   VpStartRecording \<notin>
     set (eventsSince idlePreview (snd (startRecording exampleProps serverBusy idlePreview)))"
  using remote_conflict_aborts_start
          [where c = idlePreview and p = exampleProps and env = serverBusy]
  by (simp add: example_defs recording_defs)

text \<open>
  C6. When a server is connected but the status query comes back undefined, and the
  video processor starts, \<open>startRecording\<close> succeeds local-only: the only notification is
  the warning toast, the video processor is started and \<open>recordingInProgress\<close> becomes
  true, no remote start command is issued, \<open>recordingOnServer\<close> is left as it was, and no
  detached promise is left that could set it later.
\<close>

theorem status_query_failure_local_only:
  assumes "\<not> recordingInProgress c" and "directoryHandle p \<noteq> None"
    and "getConnectionSettings env \<noteq> None" and "isRecording env = None"
    and "vpStartRecording env (videoProcessor c) = Resolved vp"
  shows "fst (startRecording p env c) = Inr () \<and>
         eventsSince c (snd (startRecording p env c)) =
           [GetConnectionSettings, IsRecording,
            Toast ''Failed to get recording status'' StatusWarning,
            VpStartRecording, SetRecordingInProgress True] \<and>
         recordingInProgress (snd (startRecording p env c)) \<and>
         videoProcessor (snd (startRecording p env c)) = vp \<and>
         recordingOnServer (snd (startRecording p env c)) = recordingOnServer c \<and>
         pending (snd (startRecording p env c)) = pending c \<and>
         (pending c = [] \<longrightarrow>
            (\<forall>d response. setRecording_settled d response (snd (startRecording p env c)) =
                            snd (startRecording p env c)))"
  using assms
  by (auto simp: startRecording_def startRecording_server_def startRecording_local_def Let_def
        eventsSince_def emit_def setRecordingInProgress_def setRecording_settled_def)

theorem status_query_failure_local_only_witness:
  "\<not> recordingInProgress idlePreview \<and> directoryHandle exampleProps \<noteq> None \<and>
   getConnectionSettings serverSilent \<noteq> None \<and> isRecording serverSilent = None \<and>
   vpStartRecording serverSilent (videoProcessor idlePreview) =
     Resolved (emptyProcessor\<lparr>recordingStartTime := 1000\<rparr>) \<and>
   fst (startRecording exampleProps serverSilent idlePreview) = Inr () \<and>
   recordingInProgress (snd (startRecording exampleProps serverSilent idlePreview)) \<and>
   recordingOnServer (snd (startRecording exampleProps serverSilent idlePreview)) = None \<and>
   trace (snd (startRecording exampleProps serverSilent idlePreview)) =
     [GetConnectionSettings, IsRecording,
      Toast ''Failed to get recording status'' StatusWarning,
      VpStartRecording, SetRecordingInProgress True]"
  using status_query_failure_local_only
          [where c = idlePreview and p = exampleProps and env = serverSilent
             and vp = "emptyProcessor\<lparr>recordingStartTime := 1000\<rparr>"]
  by (simp add: example_defs recording_defs)

text \<open>
  C3. The answer of the server to a remote \<open>setRecording\<close> command never touches
  \<open>recordingInProgress\<close> or the video processor, and \<open>recordingOnServer\<close> becomes true only
  through a resolved remote start.

  Start, with the server idle and the video processor starting. \<open>startRecording\<close> issues
  the remote start without awaiting it, then invokes the video processor's
  \<open>startRecording\<close>, takes over the processor's new state and sets
  \<open>recordingInProgress\<close>: these are exactly its events. A rejected remote start leaves
  all of that as it is, and \<open>recordingOnServer\<close> is unchanged until a resolved answer sets
  it. The same holds when the rejection arrives while \<open>startRecording\<close> is suspended at
  the await of the video processor, which is the earliest moment its callback can run:
  the function resumes, takes over the processor's state and sets the flag, the error
  toast being the only difference.

  Stop, with a mirrored recording in progress and the video processor stopping.
  \<open>stopRecording\<close> issues the remote stop without awaiting it, then invokes the video
  processor's \<open>stopRecording\<close>, and only after that resets \<open>recordingInProgress\<close>; the
  processor keeps the frame count and start time of its stopped state. A rejected remote
  stop changes none of this, whether it arrives after the function has returned or while
  it is suspended at the await of the video processor.
\<close>

theorem remote_command_failure_isolated:
  "recordingInProgress (setRecording_settled d response c) = recordingInProgress c \<and>
   videoProcessor (setRecording_settled d response c) = videoProcessor c \<and>
   (recordingOnServer (setRecording_settled d response c) = Some True \<longrightarrow>
      recordingOnServer c = Some True \<or> (d = StartMirror \<and> response = Resolved ())) \<and>
   (\<not> recordingInProgress c \<and> directoryHandle p \<noteq> None \<and>
    getConnectionSettings env \<noteq> None \<and> isRecording env = Some False \<and>
    vpStartRecording env (videoProcessor c) = Resolved vp \<longrightarrow>
      fst (startRecording p env c) = Inr () \<and>
      eventsSince c (snd (startRecording p env c)) =
        [GetConnectionSettings, IsRecording, SetRecording True, VpStartRecording,
         SetRecordingInProgress True] \<and>
      SetRecording True \<in> set (eventsSince c (snd (startRecording p env c))) \<and>
      VpStartRecording \<in> set (eventsSince c (snd (startRecording p env c))) \<and>
      videoProcessor (snd (startRecording p env c)) = vp \<and>
      StartMirror \<in> set (pending (snd (startRecording p env c))) \<and>
      recordingInProgress (snd (startRecording p env c)) \<and>
      recordingOnServer (snd (startRecording p env c)) = recordingOnServer c \<and>
      recordingInProgress
        (setRecording_settled StartMirror (Rejected msg) (snd (startRecording p env c))) \<and>
      videoProcessor
        (setRecording_settled StartMirror (Rejected msg) (snd (startRecording p env c))) = vp \<and>
      recordingOnServer
        (setRecording_settled StartMirror (Rejected msg) (snd (startRecording p env c))) =
        recordingOnServer c \<and>
      recordingOnServer
        (setRecording_settled StartMirror (Resolved ()) (snd (startRecording p env c))) =
        Some True \<and>
      startRecording p env c =
        startRecording_resume env (emit VpStartRecording (snd (startRecording_server p env c))) \<and>
      fst (startRecording_resume env
             (setRecording_settled StartMirror (Rejected msg)
                (emit VpStartRecording (snd (startRecording_server p env c))))) = Inr () \<and>
      recordingInProgress
        (snd (startRecording_resume env
           (setRecording_settled StartMirror (Rejected msg)
              (emit VpStartRecording (snd (startRecording_server p env c)))))) \<and>
      videoProcessor
        (snd (startRecording_resume env
           (setRecording_settled StartMirror (Rejected msg)
              (emit VpStartRecording (snd (startRecording_server p env c)))))) = vp \<and>
      eventsSince c
        (snd (startRecording_resume env
           (setRecording_settled StartMirror (Rejected msg)
              (emit VpStartRecording (snd (startRecording_server p env c)))))) =
        [GetConnectionSettings, IsRecording, SetRecording True, VpStartRecording,
         Toast ''Failed to start recording'' StatusError, SetRecordingInProgress True]) \<and>
   (recordingInProgress c \<and> recordingOnServer c = Some True \<and>
    vpStopRecording env (videoProcessor c) = Resolved vp \<longrightarrow>
      SetRecording False \<in> set (eventsSince c (snd (stopRecording p env c))) \<and>
      VpStopRecording \<in> set (eventsSince c (snd (stopRecording p env c))) \<and>
      precedes (SetRecording False) VpStopRecording
        (eventsSince c (snd (stopRecording p env c))) \<and>
      precedes VpStopRecording (SetRecordingInProgress False)
        (eventsSince c (snd (stopRecording p env c))) \<and>
      frameCount (videoProcessor (snd (stopRecording p env c))) = frameCount vp \<and>
      recordingStartTime (videoProcessor (snd (stopRecording p env c))) =
        recordingStartTime vp \<and>
      \<not> recordingInProgress (snd (stopRecording p env c)) \<and>
      \<not> recordingInProgress
          (setRecording_settled StopMirror (Rejected msg) (snd (stopRecording p env c))) \<and>
      stopRecording p env c = stopRecording_resume p env (snd (stopRecording_begin c)) \<and>
      \<not> recordingInProgress
          (snd (stopRecording_resume p env
             (setRecording_settled StopMirror (Rejected msg) (snd (stopRecording_begin c))))) \<and>
      precedes VpStopRecording (SetRecordingInProgress False)
        (eventsSince c
          (snd (stopRecording_resume p env
             (setRecording_settled StopMirror (Rejected msg) (snd (stopRecording_begin c)))))) \<and>
      precedes (Toast ''Failed to stop recording'' StatusError) (SetRecordingInProgress False)
        (eventsSince c
          (snd (stopRecording_resume p env
             (setRecording_settled StopMirror (Rejected msg) (snd (stopRecording_begin c)))))))"
proof (intro conjI impI)
  show "recordingInProgress (setRecording_settled d response c) = recordingInProgress c"
    and "videoProcessor (setRecording_settled d response c) = videoProcessor c"
    by simp_all
  show "recordingOnServer c = Some True \<or> d = StartMirror \<and> response = Resolved ()"
    if "recordingOnServer (setRecording_settled d response c) = Some True"
    using that by (simp add: setRecording_settled_onServer split: if_splits)
next
  assume a: "\<not> recordingInProgress c \<and> directoryHandle p \<noteq> None \<and>
    getConnectionSettings env \<noteq> None \<and> isRecording env = Some False \<and>
    vpStartRecording env (videoProcessor c) = Resolved vp"
  let ?c' = "snd (startRecording p env c)"
  let ?s = "snd (startRecording_server p env c)"
  let ?w = "emit VpStartRecording ?s"
  let ?r = "snd (startRecording_resume env
              (setRecording_settled StartMirror (Rejected msg) ?w))"
  from a obtain s where s: "getConnectionSettings env = Some s" by auto
  have sv: "startRecording_server p env c =
      (True, c\<lparr>trace := trace c @ [GetConnectionSettings, IsRecording, SetRecording True],
               pending := pending c @ [StartMirror]\<rparr>)"
    using a s by (simp add: startRecording_server_def Let_def emit_def)
  have w: "?w = c\<lparr>trace := trace c @ [GetConnectionSettings, IsRecording, SetRecording True,
                                      VpStartRecording],
                 pending := pending c @ [StartMirror]\<rparr>"
    by (simp add: sv emit_def)
  show sp: "startRecording p env c = startRecording_resume env ?w"
    using a by (auto simp: startRecording_def sv startRecording_local_split)
  have c': "startRecording p env c =
      (Inr (), c\<lparr>trace := trace c @ [GetConnectionSettings, IsRecording, SetRecording True,
                                     VpStartRecording, SetRecordingInProgress True],
                pending := pending c @ [StartMirror], videoProcessor := vp,
                recordingInProgress := True\<rparr>)"
    using a by (simp add: sp sv startRecording_resume_def setRecordingInProgress_def emit_def)
  show "fst (startRecording p env c) = Inr ()" by (simp add: c')
  show ev: "eventsSince c ?c' =
        [GetConnectionSettings, IsRecording, SetRecording True, VpStartRecording,
         SetRecordingInProgress True]"
    by (simp add: c' eventsSince_def)
  show "SetRecording True \<in> set (eventsSince c ?c')" by (simp add: ev)
  show "VpStartRecording \<in> set (eventsSince c ?c')" by (simp add: ev)
  show vp: "videoProcessor ?c' = vp" by (simp add: c')
  show pm: "StartMirror \<in> set (pending ?c')" by (simp add: c')
  show ip: "recordingInProgress ?c'" by (simp add: c')
  show os: "recordingOnServer ?c' = recordingOnServer c" by (simp add: c')
  show "recordingInProgress (setRecording_settled StartMirror (Rejected msg) ?c')"
    using ip by simp
  show "videoProcessor (setRecording_settled StartMirror (Rejected msg) ?c') = vp"
    using vp by simp
  show "recordingOnServer (setRecording_settled StartMirror (Rejected msg) ?c') =
        recordingOnServer c"
    using os by (simp add: setRecording_settled_onServer)
  show "recordingOnServer (setRecording_settled StartMirror (Resolved ()) ?c') = Some True"
    using pm by (simp add: setRecording_settled_onServer)
  have r: "startRecording_resume env (setRecording_settled StartMirror (Rejected msg) ?w) =
      (Inr (), c\<lparr>trace := trace c @ [GetConnectionSettings, IsRecording, SetRecording True,
                     VpStartRecording, Toast ''Failed to start recording'' StatusError,
                     SetRecordingInProgress True],
                pending := remove1 StartMirror (pending c @ [StartMirror]),
                videoProcessor := vp, recordingInProgress := True\<rparr>)"
    using a
    by (simp add: sv startRecording_resume_def setRecording_settled_def
          setRecordingInProgress_def emit_def Let_def)
  show "fst (startRecording_resume env
             (setRecording_settled StartMirror (Rejected msg) ?w)) = Inr ()"
    by (simp add: r)
  show "recordingInProgress ?r" by (simp add: r)
  show "videoProcessor ?r = vp" by (simp add: r)
  show "eventsSince c ?r =
        [GetConnectionSettings, IsRecording, SetRecording True, VpStartRecording,
         Toast ''Failed to start recording'' StatusError, SetRecordingInProgress True]"
    by (simp add: r eventsSince_def)
next
  assume a: "recordingInProgress c \<and> recordingOnServer c = Some True \<and>
    vpStopRecording env (videoProcessor c) = Resolved vp"
  let ?c' = "snd (stopRecording p env c)"
  let ?b = "snd (stopRecording_begin c)"
  let ?r = "snd (stopRecording_resume p env
             (setRecording_settled StopMirror (Rejected msg) ?b))"
  have st: "stopRecording p env c = stopRecording_local p env (stopRecording_server c)"
    using a by (simp add: stopRecording_def)
  have tr: "trace (stopRecording_server c) =
      trace c @ [SetRecordingOnServer False, SetRecording False]"
    using a by (simp add: stopRecording_server_def Let_def setRecordingOnServer_def emit_def)
  obtain rest where
    tc: "trace ?c' = trace c @ [SetRecordingOnServer False, SetRecording False,
                               VpStopRecording, ConsoleLog, SetRecordingInProgress False] @ rest"
    using a by (simp add: st stopRecording_local_trace tr)
  have ev: "eventsSince c ?c' =
      [SetRecordingOnServer False, SetRecording False, VpStopRecording, ConsoleLog,
       SetRecordingInProgress False] @ rest"
    using tc by (intro eventsSince_append) simp
  show "SetRecording False \<in> set (eventsSince c ?c')" by (simp add: ev)
  show "VpStopRecording \<in> set (eventsSince c ?c')" by (simp add: ev)
  show "precedes (SetRecording False) VpStopRecording (eventsSince c ?c')"
    by (simp add: ev precedes_def)
  show "precedes VpStopRecording (SetRecordingInProgress False) (eventsSince c ?c')"
    by (simp add: ev precedes_def)
  show "frameCount (videoProcessor ?c') = frameCount vp"
    and "recordingStartTime (videoProcessor ?c') = recordingStartTime vp"
    using a stopRecording_local_processor [of env "stopRecording_server c" vp p]
    by (simp_all add: st)
  show ip: "\<not> recordingInProgress ?c'"
    using a by (simp add: st stopRecording_local_flag)
  show "\<not> recordingInProgress (setRecording_settled StopMirror (Rejected msg) ?c')"
    using ip by simp
  show "stopRecording p env c = stopRecording_resume p env ?b"
    using a by (simp add: stopRecording_split stopRecording_begin_def)
  have b: "setRecording_settled StopMirror (Rejected msg) ?b =
      c\<lparr>trace := trace c @ [SetRecordingOnServer False, SetRecording False, VpStopRecording,
                            Toast ''Failed to stop recording'' StatusError],
        pending := remove1 StopMirror (pending c @ [StopMirror]),
        recordingOnServer := Some False\<rparr>"
    using a
    by (simp add: stopRecording_begin_def stopRecording_server_def setRecording_settled_def
          setRecordingOnServer_def emit_def Let_def)
  have vb: "vpStopRecording env
              (videoProcessor (setRecording_settled StopMirror (Rejected msg) ?b)) = Resolved vp"
    using a by (simp add: b)
  from stopRecording_resume_trace [OF vb, of p] obtain rest' where
    "trace ?r = trace (setRecording_settled StopMirror (Rejected msg) ?b) @
                  ConsoleLog # SetRecordingInProgress False # rest'"
    by blast
  then have tr': "trace ?r = trace c @ [SetRecordingOnServer False, SetRecording False,
            VpStopRecording, Toast ''Failed to stop recording'' StatusError, ConsoleLog,
            SetRecordingInProgress False] @ rest'"
    by (simp add: b)
  have ev': "eventsSince c ?r =
      [SetRecordingOnServer False, SetRecording False, VpStopRecording,
       Toast ''Failed to stop recording'' StatusError, ConsoleLog,
       SetRecordingInProgress False] @ rest'"
    using tr' by (intro eventsSince_append) simp
  show "\<not> recordingInProgress ?r"
    using vb by (rule stopRecording_resume_flag)
  show "precedes VpStopRecording (SetRecordingInProgress False) (eventsSince c ?r)"
    by (simp add: ev' precedes_def)
  show "precedes (Toast ''Failed to stop recording'' StatusError)
          (SetRecordingInProgress False) (eventsSince c ?r)"
    by (simp add: ev' precedes_def)
qed

theorem remote_command_failure_isolated_witness:
  "\<not> recordingInProgress idlePreview \<and> directoryHandle exampleProps \<noteq> None \<and>
   getConnectionSettings serverIdle \<noteq> None \<and> isRecording serverIdle = Some False \<and>
   vpStartRecording serverIdle (videoProcessor idlePreview) =
     Resolved (emptyProcessor\<lparr>recordingStartTime := 1000\<rparr>) \<and>
   eventsSince idlePreview (snd (startRecording exampleProps serverIdle idlePreview)) =
     [GetConnectionSettings, IsRecording, SetRecording True, VpStartRecording,
      SetRecordingInProgress True] \<and>
   videoProcessor (snd (startRecording exampleProps serverIdle idlePreview)) =
     emptyProcessor\<lparr>recordingStartTime := 1000\<rparr> \<and>
   recordingInProgress
     (setRecording_settled StartMirror (Rejected ''offline'')
        (snd (startRecording exampleProps serverIdle idlePreview))) \<and>
   recordingOnServer
     (setRecording_settled StartMirror (Rejected ''offline'')
        (snd (startRecording exampleProps serverIdle idlePreview))) = None \<and>
   recordingOnServer
     (setRecording_settled StartMirror (Resolved ())
        (snd (startRecording exampleProps serverIdle idlePreview))) = Some True \<and>
   trace
     (snd (startRecording_resume serverIdle
        (setRecording_settled StartMirror (Rejected ''offline'')
           (emit VpStartRecording
              (snd (startRecording_server exampleProps serverIdle idlePreview)))))) =
     [GetConnectionSettings, IsRecording, SetRecording True, VpStartRecording,
      Toast ''Failed to start recording'' StatusError, SetRecordingInProgress True] \<and>
   recordingInProgress
     (snd (startRecording_resume serverIdle
        (setRecording_settled StartMirror (Rejected ''offline'')
           (emit VpStartRecording
              (snd (startRecording_server exampleProps serverIdle idlePreview)))))) \<and>
   recordingInProgress recordingPreview \<and> recordingOnServer recordingPreview = Some True \<and>
   vpStopRecording serverIdle (videoProcessor recordingPreview) =
     Resolved (emptyProcessor\<lparr>recordedChunks := [1, 2, 3], frameCount := 3\<rparr>) \<and>
   VpStopRecording \<in>
     set (eventsSince recordingPreview
            (snd (stopRecording exampleProps serverIdle recordingPreview))) \<and>
   frameCount (videoProcessor (snd (stopRecording exampleProps serverIdle recordingPreview)))
     = 3 \<and>
   \<not> recordingInProgress
       (setRecording_settled StopMirror (Rejected ''offline'')
          (snd (stopRecording exampleProps serverIdle recordingPreview))) \<and>
   trace
     (snd (stopRecording_resume exampleProps serverIdle
        (setRecording_settled StopMirror (Rejected ''offline'')
           (snd (stopRecording_begin recordingPreview))))) =
     [SetRecordingOnServer False, SetRecording False, VpStopRecording,
      Toast ''Failed to stop recording'' StatusError, ConsoleLog,
      SetRecordingInProgress False, OnRecordingStop [1, 2, 3] 0, ClearRecordedChunks] \<and>
   \<not> recordingInProgress
       (snd (stopRecording_resume exampleProps serverIdle
          (setRecording_settled StopMirror (Rejected ''offline'')
             (snd (stopRecording_begin recordingPreview)))))"
  using remote_command_failure_isolated
          [where c = idlePreview and p = exampleProps and env = serverIdle
             and vp = "emptyProcessor\<lparr>recordingStartTime := 1000\<rparr>"
             and msg = "''offline''" and d = StartMirror and response = "Rejected ''offline''"]
        remote_command_failure_isolated
          [where c = recordingPreview and p = exampleProps and env = serverIdle
             and vp = "emptyProcessor\<lparr>recordedChunks := [1, 2, 3], frameCount := 3\<rparr>"
             and msg = "''offline''" and d = StopMirror and response = "Rejected ''offline''"]
  by (simp add: example_defs recording_defs stopRecording_begin_def
        stopRecording_resume_def startRecording_resume_def)

text \<open>
  C4. A stop of a recording in progress, with the video processor's \<open>stopRecording\<close>
  resolving and the caller's \<open>onRecordingStop\<close> given, does, after the optional remote
  stop command, exactly this in order: the video processor's \<open>stopRecording\<close> is
  awaited, the frame rate is logged, \<open>recordingInProgress\<close> is reset, the callback is
  awaited with the chunks and the start time the processor holds after its stop, and the
  chunks are cleared. If the callback rejects, the stop fails with its error and the
  chunks are not cleared.
\<close>

theorem stop_sequence_ordered:
  assumes "recordingInProgress c"
    and "vpStopRecording env (videoProcessor c) = Resolved vp"
    and "onRecordingStop p = Some callback"
  shows "(callback (recordedChunks vp) (recordingStartTime vp) = Resolved () \<longrightarrow>
            fst (stopRecording p env c) = Inr () \<and>
            eventsSince c (snd (stopRecording p env c)) =
              (if recordingOnServer c = Some True
               then [SetRecordingOnServer False, SetRecording False] else []) @
              [VpStopRecording, ConsoleLog, SetRecordingInProgress False,
               OnRecordingStop (recordedChunks vp) (recordingStartTime vp),
               ClearRecordedChunks] \<and>
            \<not> recordingInProgress (snd (stopRecording p env c)) \<and>
            videoProcessor (snd (stopRecording p env c)) = vp\<lparr>recordedChunks := []\<rparr>) \<and>
         (callback (recordedChunks vp) (recordingStartTime vp) = Rejected msg \<longrightarrow>
            fst (stopRecording p env c) = Inl (Error msg) \<and>
            eventsSince c (snd (stopRecording p env c)) =
              (if recordingOnServer c = Some True
               then [SetRecordingOnServer False, SetRecording False] else []) @
              [VpStopRecording, ConsoleLog, SetRecordingInProgress False,
               OnRecordingStop (recordedChunks vp) (recordingStartTime vp)] \<and>
            \<not> recordingInProgress (snd (stopRecording p env c)) \<and>
            videoProcessor (snd (stopRecording p env c)) = vp)"
proof -
  have st: "stopRecording p env c = stopRecording_local p env (stopRecording_server c)"
    using assms(1) by (simp add: stopRecording_def)
  have vp: "vpStopRecording env (videoProcessor (stopRecording_server c)) = Resolved vp"
    using assms(2) by simp
  show ?thesis
  proof (intro conjI impI)
    assume ok: "callback (recordedChunks vp) (recordingStartTime vp) = Resolved ()"
    have tr: "trace (snd (stopRecording p env c)) =
        trace c @ (if recordingOnServer c = Some True
               then [SetRecordingOnServer False, SetRecording False] else []) @
              [VpStopRecording, ConsoleLog, SetRecordingInProgress False,
               OnRecordingStop (recordedChunks vp) (recordingStartTime vp),
               ClearRecordedChunks]"
      using vp ok assms(3)
      by (simp add: st stopRecording_local_def Let_def setRecordingInProgress_def emit_def
            clearRecordedChunks_def stopRecording_server_trace)
    show "fst (stopRecording p env c) = Inr ()"
      using vp ok assms(3)
      by (simp add: st stopRecording_local_def Let_def emit_def)
    show "eventsSince c (snd (stopRecording p env c)) =
              (if recordingOnServer c = Some True
               then [SetRecordingOnServer False, SetRecording False] else []) @
              [VpStopRecording, ConsoleLog, SetRecordingInProgress False,
               OnRecordingStop (recordedChunks vp) (recordingStartTime vp),
               ClearRecordedChunks]"
      using tr by (rule eventsSince_append)
    show "\<not> recordingInProgress (snd (stopRecording p env c))"
      using vp by (simp add: st stopRecording_local_flag)
    show "videoProcessor (snd (stopRecording p env c)) = vp\<lparr>recordedChunks := []\<rparr>"
      using vp ok assms(3)
      by (simp add: st stopRecording_local_def Let_def setRecordingInProgress_def emit_def
            clearRecordedChunks_def)
  next
    assume rej: "callback (recordedChunks vp) (recordingStartTime vp) = Rejected msg"
    have tr: "trace (snd (stopRecording p env c)) =
        trace c @ (if recordingOnServer c = Some True
               then [SetRecordingOnServer False, SetRecording False] else []) @
              [VpStopRecording, ConsoleLog, SetRecordingInProgress False,
               OnRecordingStop (recordedChunks vp) (recordingStartTime vp)]"
      using vp rej assms(3)
      by (simp add: st stopRecording_local_def Let_def setRecordingInProgress_def emit_def
            stopRecording_server_trace)
    show "fst (stopRecording p env c) = Inl (Error msg)"
      using vp rej assms(3)
      by (simp add: st stopRecording_local_def Let_def emit_def)
    show "eventsSince c (snd (stopRecording p env c)) =
              (if recordingOnServer c = Some True
               then [SetRecordingOnServer False, SetRecording False] else []) @
              [VpStopRecording, ConsoleLog, SetRecordingInProgress False,
               OnRecordingStop (recordedChunks vp) (recordingStartTime vp)]"
      using tr by (rule eventsSince_append)
    show "\<not> recordingInProgress (snd (stopRecording p env c))"
      using vp by (simp add: st stopRecording_local_flag)
    show "videoProcessor (snd (stopRecording p env c)) = vp"
      using vp rej assms(3)
      by (simp add: st stopRecording_local_def Let_def setRecordingInProgress_def emit_def)
  qed
qed

theorem stop_sequence_ordered_witness:
  "recordingInProgress recordingPreview \<and>
   vpStopRecording serverIdle (videoProcessor recordingPreview) =
     Resolved (emptyProcessor\<lparr>recordedChunks := [1, 2, 3], frameCount := 3\<rparr>) \<and>
   onRecordingStop exampleProps = Some (\<lambda>chunks startTime. Resolved ()) \<and>
   fst (stopRecording exampleProps serverIdle recordingPreview) = Inr () \<and>
   trace (snd (stopRecording exampleProps serverIdle recordingPreview)) =
     [SetRecordingOnServer False, SetRecording False, VpStopRecording, ConsoleLog,
      SetRecordingInProgress False, OnRecordingStop [1, 2, 3] 0, ClearRecordedChunks] \<and>
   recordedChunks (videoProcessor (snd (stopRecording exampleProps serverIdle recordingPreview)))
     = [] \<and>
   onRecordingStop failingCallbackProps = Some (\<lambda>chunks startTime. Rejected ''disk full'') \<and>
   fst (stopRecording failingCallbackProps serverIdle recordingPreview) =
     Inl (Error ''disk full'') \<and>
   recordedChunks
     (videoProcessor (snd (stopRecording failingCallbackProps serverIdle recordingPreview)))
     = [1, 2, 3]"
  using stop_sequence_ordered
          [where c = recordingPreview and p = exampleProps and env = serverIdle
             and vp = "emptyProcessor\<lparr>recordedChunks := [1, 2, 3], frameCount := 3\<rparr>"
             and callback = "\<lambda>chunks startTime. Resolved ()"]
        stop_sequence_ordered
          [where c = recordingPreview and p = failingCallbackProps and env = serverIdle
             and vp = "emptyProcessor\<lparr>recordedChunks := [1, 2, 3], frameCount := 3\<rparr>"
             and callback = "\<lambda>chunks startTime. Rejected ''disk full''"
             and msg = "''disk full''"]
  by (simp add: example_defs recording_defs)

text \<open>
  C7 (as stated) says that the status query is made after the local encoder has started
  and does not delay it. With an idle server connected the status query comes before the
  video processor's \<open>startRecording\<close>, not after; and with a busy server the video
  processor is not started at all, so its start depends on the answer.
\<close>

theorem local_start_waits_for_status_query:
  "precedes IsRecording VpStartRecording
     (eventsSince idlePreview (snd (startRecording exampleProps serverIdle idlePreview))) \<and>
   \<not> precedes VpStartRecording IsRecording
     (eventsSince idlePreview (snd (startRecording exampleProps serverIdle idlePreview))) \<and>
   VpStartRecording \<notin>
     set (eventsSince idlePreview (snd (startRecording exampleProps serverBusy idlePreview)))"
  by (simp add: precedes_def eventsSince_def startRecording_def startRecording_server_def
        startRecording_local_def Let_def emit_def setRecordingInProgress_def
        idlePreview_def exampleProps_def serverIdle_def serverBusy_def)


text \<open>
  C7 (as amended). The local start waits for the server queries. Whenever
  \<open>startRecording\<close> invokes the video processor's \<open>startRecording\<close>, the query of the
  connection settings came before it; if a server is connected, the status query came
  before it too and did not answer true. Only the remote start command is not awaited: if
  it was issued, it was issued before the local start and its promise is still pending
  when \<open>startRecording\<close> returns.
\<close>

theorem status_query_awaited_before_local_start:
  assumes "VpStartRecording \<in> set (eventsSince c (snd (startRecording p env c)))"
  shows "precedes GetConnectionSettings VpStartRecording
           (eventsSince c (snd (startRecording p env c))) \<and>
         (getConnectionSettings env \<noteq> None \<longrightarrow>
            isRecording env \<noteq> Some True \<and>
            precedes IsRecording VpStartRecording
              (eventsSince c (snd (startRecording p env c)))) \<and>
         (SetRecording True \<in> set (eventsSince c (snd (startRecording p env c))) \<longrightarrow>
            precedes (SetRecording True) VpStartRecording
              (eventsSince c (snd (startRecording p env c))) \<and>
            StartMirror \<in> set (pending (snd (startRecording p env c))))"
proof -
  have go: "\<not> recordingInProgress c \<and> directoryHandle p \<noteq> None \<and>
            fst (startRecording_server p env c)"
  proof (rule ccontr)
    assume "\<not> ?thesis"
    then have "VpStartRecording \<notin> set (eventsSince c (snd (startRecording p env c)))"
      by (auto simp: startRecording_unfold eventsSince_def startRecording_server_trace
            split: option.splits bool.splits)
    with assms show False by simp
  qed
  then have st: "startRecording p env c =
      startRecording_local env (snd (startRecording_server p env c))"
    by (auto simp: startRecording_unfold)
  have ev: "eventsSince c (snd (startRecording p env c)) =
     GetConnectionSettings #
       (case getConnectionSettings env of
          None \<Rightarrow> []
        | Some s \<Rightarrow>
            IsRecording #
              (case isRecording env of
                 None \<Rightarrow> [Toast ''Failed to get recording status'' StatusWarning]
               | Some True \<Rightarrow>
                   Toast ''Recording already in progress'' StatusError #
                     (if onStartRecordingFailed p then [OnStartRecordingFailed] else [])
               | Some False \<Rightarrow> [SetRecording True])) @
       VpStartRecording #
       (case vpStartRecording env (videoProcessor c) of
          Resolved vp \<Rightarrow> [SetRecordingInProgress True] | Rejected m \<Rightarrow> [])"
    by (rule eventsSince_append)
       (simp add: st startRecording_local_trace startRecording_server_trace)
  from go have nt: "getConnectionSettings env \<noteq> None \<longrightarrow> isRecording env \<noteq> Some True"
    by (auto simp: startRecording_server_continue)
  have pd: "pending (snd (startRecording p env c)) =
     pending c @ (if getConnectionSettings env \<noteq> None \<and> isRecording env = Some False
                  then [StartMirror] else [])"
    by (simp add: st startRecording_server_pending)
  show ?thesis
    using nt
    by (auto simp: ev pd precedes_def split: option.splits bool.splits outcome.splits)
qed

theorem status_query_awaited_before_local_start_witness:
  "VpStartRecording \<in>
     set (eventsSince idlePreview (snd (startRecording exampleProps serverIdle idlePreview))) \<and>
   eventsSince idlePreview (snd (startRecording exampleProps serverIdle idlePreview)) =
     [GetConnectionSettings, IsRecording, SetRecording True, VpStartRecording,
      SetRecordingInProgress True] \<and>
   precedes IsRecording VpStartRecording
     (eventsSince idlePreview (snd (startRecording exampleProps serverIdle idlePreview))) \<and>
   precedes (SetRecording True) VpStartRecording
     (eventsSince idlePreview (snd (startRecording exampleProps serverIdle idlePreview))) \<and>
   pending (snd (startRecording exampleProps serverIdle idlePreview)) = [StartMirror]"
  using status_query_awaited_before_local_start
          [where c = idlePreview and p = exampleProps and env = serverIdle]
  by (simp add: example_defs recording_defs)


end
